theory Spec2Isabelle
  imports Main "HOL-Library.Word"
begin

section \<open>JavaScript strings\<close>

text \<open>
  A JavaScript string is a sequence of 16-bit code units. String literals of the source
  are ASCII and are written through \<open>lit\<close>.
\<close>

type_synonym jsstring = "16 word list"

definition lit :: "string \<Rightarrow> jsstring" where
  "lit s = map (\<lambda>c. word_of_nat (of_char c)) s"

definition is_whitespace :: "16 word \<Rightarrow> bool" where
  \<comment> \<open>ECMAScript WhiteSpace and LineTerminator code points, the ones \<open>String.prototype.trim\<close> strips.\<close>
  "is_whitespace c =
     (c = 0x0009 \<or> c = 0x000A \<or> c = 0x000B \<or> c = 0x000C \<or> c = 0x000D \<or> c = 0x0020
      \<or> c = 0x00A0 \<or> c = 0x1680 \<or> (0x2000 \<le> c \<and> c \<le> 0x200A) \<or> c = 0x2028
      \<or> c = 0x2029 \<or> c = 0x202F \<or> c = 0x205F \<or> c = 0x3000 \<or> c = 0xFEFF)"

definition trim :: "jsstring \<Rightarrow> jsstring" where
  \<comment> \<open>\<open>s.trim()\<close>\<close>
  "trim s = rev (dropWhile is_whitespace (rev (dropWhile is_whitespace s)))"

fun split_on :: "16 word \<Rightarrow> jsstring \<Rightarrow> jsstring list" where
  \<comment> \<open>\<open>s.split(c)\<close> for a one-character separator; the result is never empty.\<close>
  "split_on c [] = [[]]"
| "split_on c (x # xs) =
     (if x = c then [] # split_on c xs
      else (case split_on c xs of [] \<Rightarrow> [[x]] | y # ys \<Rightarrow> (x # y) # ys))"

definition truthy :: "jsstring option \<Rightarrow> bool" where
  \<comment> \<open>JavaScript truthiness of a value that is a string, \<open>null\<close> or \<open>undefined\<close>.\<close>
  "truthy v = (case v of None \<Rightarrow> False | Some s \<Rightarrow> s \<noteq> [])"

section \<open>The backend: bucket, table \<open>files\<close>, session\<close>

text \<open>
  The provider's SDK returns \<open>{data, error}\<close>; an error is an object that may or may not be
  an instance of \<open>Error\<close> and carries a message.
\<close>

datatype provider_error = ProviderError (instanceof_Error: bool) (error_message: jsstring)

record upfile =
  file_name :: jsstring
  file_size :: nat
  file_type :: jsstring

record user =
  user_id_of :: jsstring
  user_email :: "jsstring option"

text \<open>The object literal handed to \<open>supabase.from('files').insert([...])\<close> in \<open>handleSubmit\<close>.\<close>

record insert_payload =
  p_name :: jsstring
  p_path :: "jsstring option"
  p_recipient_email :: "jsstring option"
  p_expiry_date :: "int option"
  p_user_id :: jsstring
  p_download_count :: int
  p_message :: jsstring
  p_type :: jsstring

text \<open>
  A row of \<open>public.files\<close> as the components read it (\<open>row_id\<close> is column \<open>id\<close>,
  \<open>row_message\<close> is column \<open>message\<close>). \<open>id\<close> and \<open>created_at\<close> are filled
  by the column defaults of the table definition; \<open>view_count\<close> is read by the dashboard
  (\<open>file.view_count || 0\<close>) but no table definition of the repository declares it, so a
  row has a view count only once an update sets one. Instants are milliseconds since the epoch.
\<close>

record file_row =
  row_id :: jsstring
  name :: jsstring
  path :: "jsstring option"
  recipient_email :: "jsstring option"
  expiry_date :: "int option"
  created_at :: int
  user_id :: jsstring
  download_count :: "int option"
  view_count :: "int option"
  row_message :: jsstring
  type :: jsstring

record backend =
  objects :: "jsstring \<rightharpoonup> upfile"
  files :: "file_row list"

text \<open>Every request issued to the bucket or to the table, in the order issued.\<close>

datatype call =
    Upload jsstring
  | Insert insert_payload
  | Remove jsstring
  | DeleteRow jsstring
  | ListObjects "jsstring option" "jsstring option"
  | CreateSignedUrl jsstring
  | UpdateDownloadCount jsstring int
  | SelectFiles "jsstring option" "nat option"

text \<open>
  The ways an operation ends without success. The first six are the failure kinds of the
  specification. The code has four more exits: no signed-in user, the \<open>RangeError\<close> of
  \<open>toISOString\<close> on an invalid date, an answer of \<open>createSignedUrl\<close> without a URL, and a
  rejected clipboard write.
\<close>

datatype failure =
    ValidationError
  | StorageError provider_error
  | PersistenceError provider_error
  | NotFoundError
  | AuthorizationError
  | NotApplicableError
  | NotAuthenticated
  | RangeError
  | SignedUrlMissing
  | ClipboardError

text \<open>
  A request either fails, leaving the store as it was, or takes effect. Whether it fails is
  decided outside the program and is a parameter of each operation (\<open>fault\<close>).
  \<open>upload\<close> is called with \<open>upsert: false\<close>, so it refuses a path that is taken.
\<close>

definition already_exists :: provider_error where
  "already_exists = ProviderError True (lit ''The resource already exists'')"

definition storage_upload ::
  "provider_error option \<Rightarrow> jsstring \<Rightarrow> upfile \<Rightarrow> (jsstring \<rightharpoonup> upfile) \<Rightarrow> provider_error option \<times> (jsstring \<rightharpoonup> upfile)" where
  "storage_upload fault p f objs =
     (case fault of Some e \<Rightarrow> (Some e, objs)
      | None \<Rightarrow> (if objs p \<noteq> None then (Some already_exists, objs) else (None, objs(p \<mapsto> f))))"

definition storage_remove ::
  "provider_error option \<Rightarrow> jsstring \<Rightarrow> (jsstring \<rightharpoonup> upfile) \<Rightarrow> provider_error option \<times> (jsstring \<rightharpoonup> upfile)" where
  "storage_remove fault p objs =
     (case fault of Some e \<Rightarrow> (Some e, objs) | None \<Rightarrow> (None, objs(p := None)))"

definition new_row :: "jsstring \<Rightarrow> int \<Rightarrow> insert_payload \<Rightarrow> file_row" where
  "new_row i t p =
     \<lparr> row_id = i, name = p_name p, path = p_path p, recipient_email = p_recipient_email p,
       expiry_date = p_expiry_date p, created_at = t, user_id = p_user_id p,
       download_count = Some (p_download_count p), view_count = None,
       row_message = p_message p, type = p_type p \<rparr>"

definition table_insert ::
  "provider_error option \<Rightarrow> jsstring \<Rightarrow> int \<Rightarrow> insert_payload \<Rightarrow> file_row list \<Rightarrow> provider_error option \<times> file_row list" where
  "table_insert fault i t p rows =
     (case fault of Some e \<Rightarrow> (Some e, rows) | None \<Rightarrow> (None, rows @ [new_row i t p]))"

text \<open>
  Policy "Users can delete their own files": \<open>using (auth.uid() = user_id)\<close>. A delete
  touches only the rows the policy lets the session see; the others are skipped without
  an error. The update policy has the same condition.
\<close>

definition table_delete ::
  "provider_error option \<Rightarrow> jsstring option \<Rightarrow> jsstring \<Rightarrow> file_row list \<Rightarrow> provider_error option \<times> file_row list" where
  "table_delete fault uid i rows =
     (case fault of Some e \<Rightarrow> (Some e, rows)
      | None \<Rightarrow> (None, filter (\<lambda>r. \<not> (uid = Some (user_id r) \<and> row_id r = i)) rows))"

definition table_update_download_count ::
  "provider_error option \<Rightarrow> jsstring option \<Rightarrow> jsstring \<Rightarrow> int \<Rightarrow> file_row list \<Rightarrow> provider_error option \<times> file_row list" where
  "table_update_download_count fault uid i n rows =
     (case fault of Some e \<Rightarrow> (Some e, rows)
      | None \<Rightarrow> (None, map (\<lambda>r. if uid = Some (user_id r) \<and> row_id r = i
                                then r\<lparr>download_count := Some n\<rparr> else r) rows))"

text \<open>
  Policy "Users can view their own files" restricts every \<open>select\<close> to the rows of the
  session.
\<close>

definition visible :: "jsstring option \<Rightarrow> file_row list \<Rightarrow> file_row list" where
  "visible uid rows = filter (\<lambda>r. uid = Some (user_id r)) rows"

text \<open>
  The list components read their rows with
  \<open>select('*').eq('user_id', user.id).order('created_at', {ascending: false})\<close>, the
  dashboard with \<open>.limit(6)\<close> in addition. Rows created at the same instant keep the
  order of the table.
\<close>

definition select_own ::
  "provider_error option \<Rightarrow> jsstring option \<Rightarrow> nat option \<Rightarrow> file_row list \<Rightarrow> provider_error + file_row list" where
  "select_own fault uid lim rows =
     (case fault of
        Some e \<Rightarrow> Inl e
      | None \<Rightarrow>
          (let sorted = sort_key (\<lambda>r. - created_at r) (visible uid rows)
           in Inr (case lim of None \<Rightarrow> sorted | Some k \<Rightarrow> take k sorted)))"

text \<open>
  The bucket is keyed by the full path \<open>folder/name\<close>. The lookup
  \<open>list(folder, {limit: 1, offset: 0, search: name})\<close> answers with the object of that folder
  whose name is the search term, if it is stored (the search is taken to match the whole
  name); the bucket model has no folder listing, so a lookup without a search term is
  answered with no object. \<open>createSignedUrl\<close> signs only a stored object and otherwise answers
  "Object not found"; the URL it hands out (\<open>data?.signedUrl\<close>) is given from outside.
\<close>

definition object_not_found :: provider_error where
  "object_not_found = ProviderError True (lit ''Object not found'')"

definition storage_list ::
  "provider_error option \<Rightarrow> jsstring option \<Rightarrow> jsstring option \<Rightarrow> (jsstring \<rightharpoonup> upfile) \<Rightarrow> provider_error + jsstring list option" where
  "storage_list fault folder search objs =
     (case fault of
        Some e \<Rightarrow> Inl e
      | None \<Rightarrow>
          Inr (Some (case folder of
                       None \<Rightarrow> []
                     | Some d \<Rightarrow>
                         (case search of
                            None \<Rightarrow> []
                          | Some n \<Rightarrow> (if objs (d @ lit ''/'' @ n) \<noteq> None then [n] else [])))))"

definition storage_sign ::
  "provider_error option \<Rightarrow> jsstring option \<Rightarrow> jsstring \<Rightarrow> (jsstring \<rightharpoonup> upfile) \<Rightarrow> provider_error + jsstring option" where
  "storage_sign fault url p objs =
     (case fault of
        Some e \<Rightarrow> Inl e
      | None \<Rightarrow> (if objs p = None then Inl object_not_found else Inr url))"

section \<open>The upload form (\<open>FileUpload.tsx\<close>)\<close>

record FileUploadState =
  state_file :: "upfile option"
  recipientEmail :: jsstring
  expiryDays :: int
  uploading :: bool
  error :: "jsstring option"
  success :: bool
  fileContent :: "jsstring option"
  message :: jsstring
  preview :: "jsstring option"

text \<open>
  What \<open>handleSubmit\<close> reads from outside: the signed-in user, the two generated parts of
  the file name (\<open>Math.random().toString(36).substring(2)\<close> and the digits of
  \<open>Date.now()\<close>), the clock at the time the record is built, the faults of its three
  requests, and the \<open>id\<close> and \<open>created_at\<close> the table assigns.
\<close>

record submit_env =
  session_user :: "user option"
  random36 :: jsstring
  stamp :: jsstring
  expiry_now :: int
  invalid_time_message :: jsstring
  upload_fault :: "provider_error option"
  insert_fault :: "provider_error option"
  remove_fault :: "provider_error option"
  new_id :: jsstring
  created_now :: int

record 'a op_outcome =
  store :: backend
  calls :: "call list"
  result :: "failure + 'a"

record 'a submit_outcome = "'a op_outcome" +
  form :: FileUploadState

definition shown_message :: "submit_env \<Rightarrow> failure \<Rightarrow> jsstring" where
  \<comment> \<open>\<open>error instanceof Error ? error.message : 'Error sending. Please try again.'\<close>\<close>
  "shown_message env x =
     (case x of
        NotAuthenticated \<Rightarrow> lit ''User not authenticated''
      | RangeError \<Rightarrow> invalid_time_message env
      | StorageError e \<Rightarrow>
          (if instanceof_Error e then error_message e else lit ''Error sending. Please try again.'')
      | PersistenceError e \<Rightarrow>
          (if instanceof_Error e then error_message e else lit ''Error sending. Please try again.'')
      | _ \<Rightarrow> lit ''Error sending. Please try again.'')"

definition caught ::
  "FileUploadState \<Rightarrow> submit_env \<Rightarrow> backend \<Rightarrow> call list \<Rightarrow> failure \<Rightarrow> unit submit_outcome" where
  \<comment> \<open>the \<open>catch\<close> block of \<open>handleSubmit\<close>\<close>
  "caught st env be log x =
     \<lparr> store = be, calls = log, result = Inl x,
       form = st\<lparr>uploading := False, error := Some (shown_message env x)\<rparr> \<rparr>"

definition fileExt :: "upfile \<Rightarrow> jsstring" where
  \<comment> \<open>\<open>file.name.split('.').pop() || ''\<close>\<close>
  "fileExt f = (case rev (split_on 0x2E (file_name f)) of [] \<Rightarrow> [] | x # _ \<Rightarrow> x)"

definition filePath_of :: "submit_env \<Rightarrow> user \<Rightarrow> upfile option \<Rightarrow> jsstring" where
  \<comment> \<open>\<open>filePath\<close>: \<open>''\<close> without a file, else \<open>`${user.id}/${fileName}`\<close>\<close>
  "filePath_of env u fo =
     (case fo of None \<Rightarrow> []
      | Some f \<Rightarrow> user_id_of u @ lit ''/'' @ random36 env @ lit ''_'' @ stamp env @ lit ''.'' @ fileExt f)"

definition max_time_value :: int where
  \<comment> \<open>a \<open>Date\<close> is valid up to 8.64e15 ms either side of the epoch\<close>
  "max_time_value = 8640000000000000"

definition expiry_time :: "submit_env \<Rightarrow> FileUploadState \<Rightarrow> int" where
  \<comment> \<open>\<open>Date.now() + state.expiryDays * 24 * 60 * 60 * 1000\<close>\<close>
  "expiry_time env st = expiry_now env + expiryDays st * 24 * 60 * 60 * 1000"

definition record_of :: "FileUploadState \<Rightarrow> submit_env \<Rightarrow> user \<Rightarrow> insert_payload" where
  \<comment> \<open>the object literal inserted into \<open>files\<close>\<close>
  "record_of st env u =
     \<lparr> p_name = (case state_file st of None \<Rightarrow> lit ''Message Only''
                 | Some f \<Rightarrow> if file_name f \<noteq> [] then file_name f else lit ''Message Only''),
       p_path = (if filePath_of env u (state_file st) \<noteq> [] then Some (filePath_of env u (state_file st)) else None),
       p_recipient_email = (if recipientEmail st \<noteq> [] then Some (recipientEmail st) else user_email u),
       p_expiry_date = (if expiryDays st \<noteq> 0 then Some (expiry_time env st) else None),
       p_user_id = user_id_of u,
       p_download_count = 0,
       p_message = trim (message st),
       p_type = (if state_file st \<noteq> None then lit ''file_and_message'' else lit ''message_only'') \<rparr>"

definition after_insert ::
  "FileUploadState \<Rightarrow> submit_env \<Rightarrow> user \<Rightarrow> (jsstring \<rightharpoonup> upfile) \<Rightarrow> file_row list \<Rightarrow> call list \<Rightarrow> unit submit_outcome" where
  \<comment> \<open>from the \<open>insert\<close> request to the end of \<open>handleSubmit\<close>\<close>
  "after_insert st env u objs rows log =
     (let filePath = filePath_of env u (state_file st);
          payload = record_of st env u;
          (dbError, rows') = table_insert (insert_fault env) (new_id env) (created_now env) payload rows
      in case dbError of
           Some e \<Rightarrow>
             (if filePath \<noteq> [] then
                (let (ignored, objs') = storage_remove (remove_fault env) filePath objs
                 in caught st env \<lparr>objects = objs', files = rows'\<rparr>
                      (log @ [Insert payload, Remove filePath]) (PersistenceError e))
              else caught st env \<lparr>objects = objs, files = rows'\<rparr>
                     (log @ [Insert payload]) (PersistenceError e))
         | None \<Rightarrow>
             \<lparr> store = \<lparr>objects = objs, files = rows'\<rparr>, calls = log @ [Insert payload],
               result = Inr (),
               form = st\<lparr>uploading := False, success := True, state_file := None, recipientEmail := [],
                         fileContent := None, message := [], error := None, preview := None,
                         expiryDays := 7\<rparr> \<rparr>)"

definition handleSubmit :: "FileUploadState \<Rightarrow> submit_env \<Rightarrow> backend \<Rightarrow> unit submit_outcome" where
  "handleSubmit st env be =
     (if state_file st = None \<and> trim (message st) = [] then
        \<lparr> store = be, calls = [], result = Inl ValidationError,
          form = st\<lparr>error := Some (lit ''Please either select a file to upload or enter a message'')\<rparr> \<rparr>
      else
        (case session_user env of
           None \<Rightarrow> caught st env be [] NotAuthenticated
         | Some u \<Rightarrow>
             (let filePath = filePath_of env u (state_file st);
                  (uploadError, objs, log) =
                     (case state_file st of
                        None \<Rightarrow> (None, objects be, [])
                      | Some f \<Rightarrow>
                          (let (e, objs') = storage_upload (upload_fault env) filePath f (objects be)
                           in (e, objs', [Upload filePath])))
              in case uploadError of
                   Some e \<Rightarrow> caught st env (be\<lparr>objects := objs\<rparr>) log (StorageError e)
                 | None \<Rightarrow>
                     (if expiryDays st \<noteq> 0 \<and> max_time_value < \<bar>expiry_time env st\<bar> then
                        caught st env (be\<lparr>objects := objs\<rparr>) log RangeError
                      else after_insert st env u objs (files be) log))))"

section \<open>The styled upload form (second \<open>FileUpload\<close> component)\<close>

definition MAX_FILE_SIZE :: nat where
  "MAX_FILE_SIZE = 50 * 1024 * 1024"

text \<open>
  \<open>formatSize\<close> renders a byte count through floating-point logarithms; its text is a
  parameter (\<open>fmt\<close>) of the functions that show it.
\<close>

definition validateFile :: "(nat \<Rightarrow> jsstring) \<Rightarrow> upfile \<Rightarrow> jsstring option" where
  "validateFile fmt f =
     (if file_size f > MAX_FILE_SIZE
      then Some (lit ''File size exceeds 50MB limit ('' @ fmt (file_size f) @ lit '')'')
      else None)"

definition handleFileChange ::
  "(nat \<Rightarrow> jsstring) \<Rightarrow> FileUploadState \<Rightarrow> upfile option \<Rightarrow> FileUploadState" where
  \<comment> \<open>\<open>e.target.files?.[0]\<close> is the third argument\<close>
  "handleFileChange fmt st selectedFile =
     (case selectedFile of
        None \<Rightarrow> st
      | Some f \<Rightarrow>
          (if truthy (validateFile fmt f)
           then st\<lparr>error := validateFile fmt f, state_file := None\<rparr>
           else st\<lparr>state_file := Some f, error := None\<rparr>))"

definition handleDrop ::
  "(nat \<Rightarrow> jsstring) \<Rightarrow> FileUploadState \<Rightarrow> upfile option \<Rightarrow> FileUploadState" where
  \<comment> \<open>\<open>e.dataTransfer.files?.[0]\<close> is the third argument\<close>
  "handleDrop fmt st droppedFile =
     (case droppedFile of
        None \<Rightarrow> st
      | Some f \<Rightarrow>
          (if truthy (validateFile fmt f)
           then st\<lparr>error := validateFile fmt f, state_file := None\<rparr>
           else st\<lparr>state_file := Some f, error := None\<rparr>))"

section \<open>The file list (\<open>FileList.tsx\<close>) and the dashboard with the file table\<close>

text \<open>
  The operations below are given the session's \<open>auth.uid()\<close> (\<open>uid\<close>), which the table's
  policies compare with \<open>user_id\<close>, and the faults of their requests. Of the component
  state only what the requests depend on is kept.
\<close>

definition handleDelete ::
  "jsstring option \<Rightarrow> provider_error option \<Rightarrow> provider_error option \<Rightarrow> file_row \<Rightarrow> backend \<Rightarrow> unit op_outcome" where
  \<comment> \<open>\<open>FileList.tsx\<close>; \<open>removeFault\<close> and \<open>deleteFault\<close> are the faults of the two requests\<close>
  "handleDelete uid removeFault deleteFault f be =
     (let (storageError, objs, log) =
            (case path f of
               None \<Rightarrow> (None, objects be, [])
             | Some p \<Rightarrow>
                 (if p \<noteq> [] then
                    (let (e, objs') = storage_remove removeFault p (objects be)
                     in (e, objs', [Remove p]))
                  else (None, objects be, [])))
      in case storageError of
           Some e \<Rightarrow> \<lparr> store = be\<lparr>objects := objs\<rparr>, calls = log, result = Inl (StorageError e) \<rparr>
         | None \<Rightarrow>
             (let (dbError, rows) = table_delete deleteFault uid (row_id f) (files be)
              in \<lparr> store = \<lparr>objects = objs, files = rows\<rparr>,
                   calls = log @ [DeleteRow (row_id f)],
                   result = (case dbError of Some e \<Rightarrow> Inl (PersistenceError e) | None \<Rightarrow> Inr ()) \<rparr>))"

definition nth_opt :: "'a list \<Rightarrow> nat \<Rightarrow> 'a option" where
  \<comment> \<open>\<open>xs[i]\<close>, \<open>undefined\<close> out of range\<close>
  "nth_opt xs i = (if i < length xs then Some (xs ! i) else None)"

definition lookup_request :: "jsstring \<Rightarrow> call" where
  \<comment> \<open>\<open>list(path.split('/')[0], {limit: 1, offset: 0, search: path.split('/')[1]})\<close>\<close>
  "lookup_request p = ListObjects (nth_opt (split_on 0x2F p) 0) (nth_opt (split_on 0x2F p) 1)"

definition size_lookups :: "file_row list \<Rightarrow> call list" where
  \<comment> \<open>the \<open>list\<close> request that \<open>fetchFiles\<close> and \<open>fetchDashboardData\<close> issue for each row
      with a path, to read the size\<close>
  "size_lookups data =
     concat (map (\<lambda>r. case path r of
                         None \<Rightarrow> []
                       | Some p \<Rightarrow> (if p \<noteq> [] then [lookup_request p] else [])) data)"

fun is_read :: "call \<Rightarrow> bool" where
  \<comment> \<open>the requests that change nothing: a select and a list\<close>
  "is_read (SelectFiles u k) = True"
| "is_read (ListObjects d n) = True"
| "is_read c = False"

definition fetchFiles_requests ::
  "provider_error option \<Rightarrow> jsstring option \<Rightarrow> file_row list \<Rightarrow> call list" where
  \<comment> \<open>the requests of \<open>fetchFiles\<close> (\<open>FileList.tsx\<close>): nothing without a user, else the
      select and, if it is answered, the size lookups\<close>
  "fetchFiles_requests selectFault uid rows =
     (case uid of
        None \<Rightarrow> []
      | Some i \<Rightarrow>
          SelectFiles uid None #
          (case select_own selectFault uid None rows of
             Inl e \<Rightarrow> []
           | Inr data \<Rightarrow> size_lookups data))"

definition fetchDashboardData_requests ::
  "provider_error option \<Rightarrow> jsstring option \<Rightarrow> file_row list \<Rightarrow> call list" where
  \<comment> \<open>the requests of the dashboard's \<open>fetchDashboardData\<close>: as \<open>fetchFiles\<close>, with \<open>.limit(6)\<close>\<close>
  "fetchDashboardData_requests selectFault uid rows =
     (case uid of
        None \<Rightarrow> []
      | Some i \<Rightarrow>
          SelectFiles uid (Some 6) #
          (case select_own selectFault uid (Some 6) rows of
             Inl e \<Rightarrow> []
           | Inr data \<Rightarrow> size_lookups data))"

definition handleDelete_dashboard ::
  "jsstring option \<Rightarrow> provider_error option \<Rightarrow> provider_error option \<Rightarrow> provider_error option \<Rightarrow> file_row option \<Rightarrow> backend \<Rightarrow> unit option op_outcome" where
  \<comment> \<open>the dashboard's \<open>handleDelete\<close>; without an Entry chosen it returns at once
      (\<open>Inr None\<close>); after a successful delete it reads the dashboard data again
      (\<open>selectFault\<close> is the fault of that select)\<close>
  "handleDelete_dashboard uid removeFault deleteFault selectFault fileToDelete be =
     (case fileToDelete of
        None \<Rightarrow> \<lparr> store = be, calls = [], result = Inr None \<rparr>
      | Some f \<Rightarrow>
          (let (storageError, objs, log) =
                 (case path f of
                    None \<Rightarrow> (None, objects be, [])
                  | Some p \<Rightarrow>
                      (if p \<noteq> [] then
                         (let (e, objs') = storage_remove removeFault p (objects be)
                          in (e, objs', [Remove p]))
                       else (None, objects be, [])))
           in case storageError of
                Some e \<Rightarrow>
                  \<lparr> store = be\<lparr>objects := objs\<rparr>, calls = log, result = Inl (StorageError e) \<rparr>
              | None \<Rightarrow>
                  (let (dbError, rows) = table_delete deleteFault uid (row_id f) (files be)
                   in case dbError of
                        Some e \<Rightarrow>
                          \<lparr> store = \<lparr>objects = objs, files = rows\<rparr>,
                            calls = log @ [DeleteRow (row_id f)],
                            result = Inl (PersistenceError e) \<rparr>
                      | None \<Rightarrow>
                          \<lparr> store = \<lparr>objects = objs, files = rows\<rparr>,
                            calls = log @ [DeleteRow (row_id f)]
                                      @ fetchDashboardData_requests selectFault uid rows,
                            result = Inr (Some ()) \<rparr>)))"

text \<open>
  What the link issuers read from outside: the faults of the lookup, of the signing and
  of the counter update, the URL the storage hands out when it signs, whether
  \<open>navigator.clipboard.writeText\<close> resolves, and the fault of the select that re-reads the
  list afterwards.
\<close>

record link_env =
  list_fault :: "provider_error option"
  sign_fault :: "provider_error option"
  signed_url :: "jsstring option"
  clipboard_ok :: bool
  update_fault :: "provider_error option"
  reread_fault :: "provider_error option"

definition local_download_count :: "file_row list \<Rightarrow> jsstring \<Rightarrow> int" where
  \<comment> \<open>\<open>files.find(f => f.id === fileId)?.download_count ?? 0\<close>\<close>
  "local_download_count fs fileId =
     (case find (\<lambda>f. row_id f = fileId) fs of
        None \<Rightarrow> 0
      | Some f \<Rightarrow> (case download_count f of None \<Rightarrow> 0 | Some n \<Rightarrow> n))"

definition issue_link ::
  "jsstring option \<Rightarrow> link_env \<Rightarrow> jsstring \<Rightarrow> int \<Rightarrow> jsstring \<Rightarrow> backend \<Rightarrow> call list \<Rightarrow> jsstring option op_outcome" where
  \<comment> \<open>from \<open>createSignedUrl\<close> to the end of \<open>generateShareableLink\<close>; \<open>n\<close> is the count read
      locally; after a successful counter update the list is read again (\<open>fetchFiles\<close>)\<close>
  "issue_link uid env fileId n p be log =
     (case storage_sign (sign_fault env) (signed_url env) p (objects be) of
        Inl e \<Rightarrow> \<lparr> store = be, calls = log @ [CreateSignedUrl p], result = Inl (StorageError e) \<rparr>
      | Inr u \<Rightarrow>
          (case u of
             None \<Rightarrow> \<lparr> store = be, calls = log @ [CreateSignedUrl p], result = Inl SignedUrlMissing \<rparr>
           | Some url \<Rightarrow>
               (if url = [] then
                  \<lparr> store = be, calls = log @ [CreateSignedUrl p], result = Inl SignedUrlMissing \<rparr>
                else if \<not> clipboard_ok env then
                  \<lparr> store = be, calls = log @ [CreateSignedUrl p], result = Inl ClipboardError \<rparr>
                else
                  (let (updateError, rows) =
                         table_update_download_count (update_fault env) uid fileId (n + 1) (files be)
                   in \<lparr> store = be\<lparr>files := rows\<rparr>,
                        calls = log @ [CreateSignedUrl p, UpdateDownloadCount fileId (n + 1)]
                                  @ (case updateError of
                                       Some e \<Rightarrow> []
                                     | None \<Rightarrow> fetchFiles_requests (reread_fault env) uid rows),
                        result = Inr (Some url) \<rparr>))))"

definition generateShareableLink ::
  "jsstring option \<Rightarrow> link_env \<Rightarrow> file_row list \<Rightarrow> jsstring \<Rightarrow> jsstring option \<Rightarrow> backend \<Rightarrow> jsstring option op_outcome" where
  \<comment> \<open>\<open>FileList.tsx\<close>; \<open>fs\<close> is the component's \<open>files\<close> state. \<open>if (!path) return\<close> ends
      the operation at once with nothing shown (\<open>Inr None\<close>); \<open>Inr (Some url)\<close> is the link
      copied to the clipboard\<close>
  "generateShareableLink uid env fs fileId pth be =
     (case pth of
        None \<Rightarrow> \<lparr> store = be, calls = [], result = Inr None \<rparr>
      | Some p \<Rightarrow>
          (if p = [] then \<lparr> store = be, calls = [], result = Inr None \<rparr>
           else
             (case storage_list (list_fault env) (nth_opt (split_on 0x2F p) 0)
                     (nth_opt (split_on 0x2F p) 1) (objects be) of
                Inl e \<Rightarrow> \<lparr> store = be, calls = [lookup_request p], result = Inl (StorageError e) \<rparr>
              | Inr checkData \<Rightarrow>
                  (case checkData of
                     None \<Rightarrow> \<lparr> store = be, calls = [lookup_request p], result = Inl NotFoundError \<rparr>
                   | Some found \<Rightarrow>
                       (if length found = 0 then
                          \<lparr> store = be, calls = [lookup_request p], result = Inl NotFoundError \<rparr>
                        else issue_link uid env fileId (local_download_count fs fileId) p be
                               [lookup_request p])))))"

definition handleShareLink ::
  "jsstring option \<Rightarrow> link_env \<Rightarrow> file_row \<Rightarrow> backend \<Rightarrow> jsstring op_outcome" where
  \<comment> \<open>the dashboard's link issuer: without a path it shows "No file to share"; no lookup;
      the count is \<open>(file.download_count || 0) + 1\<close>; without \<open>data\<close> the read of
      \<open>data.signedUrl\<close> throws; the list is not read again\<close>
  "handleShareLink uid env f be =
     (case path f of
        None \<Rightarrow> \<lparr> store = be, calls = [], result = Inl NotApplicableError \<rparr>
      | Some p \<Rightarrow>
          (if p = [] then \<lparr> store = be, calls = [], result = Inl NotApplicableError \<rparr>
           else
             (case storage_sign (sign_fault env) (signed_url env) p (objects be) of
                Inl e \<Rightarrow> \<lparr> store = be, calls = [CreateSignedUrl p], result = Inl (StorageError e) \<rparr>
              | Inr u \<Rightarrow>
                  (case u of
                     None \<Rightarrow> \<lparr> store = be, calls = [CreateSignedUrl p], result = Inl SignedUrlMissing \<rparr>
                   | Some url \<Rightarrow>
                       (if \<not> clipboard_ok env then
                          \<lparr> store = be, calls = [CreateSignedUrl p], result = Inl ClipboardError \<rparr>
                        else
                          (let n = (case download_count f of None \<Rightarrow> 0 | Some c \<Rightarrow> c);
                               (updateError, rows) =
                                 table_update_download_count (update_fault env) uid (row_id f) (n + 1) (files be)
                           in \<lparr> store = be\<lparr>files := rows\<rparr>,
                                calls = [CreateSignedUrl p, UpdateDownloadCount (row_id f) (n + 1)],
                                result = Inr url \<rparr>))))))"

definition view_count_shown :: "file_row \<Rightarrow> int" where
  \<comment> \<open>the dashboard's table cell: \<open>file.view_count || 0\<close>\<close>
  "view_count_shown r = (case view_count r of None \<Rightarrow> 0 | Some n \<Rightarrow> n)"

section \<open>The statistics dashboard (\<open>Dashboard.tsx\<close>)\<close>

record DashboardStats =
  totalFiles :: nat
  activeTransfers :: nat
  totalDownloads :: int

text \<open>
  Every \<open>select\<close> sees the rows of the session only (\<open>visible\<close>).
  \<open>.gte('expiry_date', now)\<close> keeps the rows whose \<open>expiry_date >= now\<close> is true;
  on a \<open>null\<close> expiry date the comparison is not true. \<open>fetchDashboardStats\<close> is given
  with its three queries answered.
\<close>

definition gte_expiry_date :: "int \<Rightarrow> file_row \<Rightarrow> bool" where
  "gte_expiry_date now r = (case expiry_date r of None \<Rightarrow> False | Some d \<Rightarrow> d \<ge> now)"

definition fetchDashboardStats :: "jsstring option \<Rightarrow> int \<Rightarrow> file_row list \<Rightarrow> DashboardStats" where
  "fetchDashboardStats uid now rows =
     \<lparr> totalFiles = length (visible uid rows),
       activeTransfers = length (filter (gte_expiry_date now) (visible uid rows)),
       totalDownloads =
         fold (\<lambda>curr acc. acc + (case download_count curr of None \<Rightarrow> 0 | Some n \<Rightarrow> n))
           (visible uid rows) 0 \<rparr>"

section \<open>Sample inputs\<close>

definition alice :: user where
  "alice = \<lparr> user_id_of = lit ''u1'', user_email = Some (lit ''alice@example.org'') \<rparr>"

definition initial_form :: FileUploadState where
  \<comment> \<open>the initial state of the form\<close>
  "initial_form =
     \<lparr> state_file = None, recipientEmail = [], expiryDays = 7, uploading = False, error = None,
       success = False, fileContent = None, message = [], preview = None \<rparr>"

definition notes_txt :: upfile where
  "notes_txt = \<lparr> file_name = lit ''notes.txt'', file_size = 12, file_type = lit ''text/plain'' \<rparr>"

definition big_iso :: upfile where
  "big_iso = \<lparr> file_name = lit ''big.iso'', file_size = 52428801, file_type = [] \<rparr>"

definition quiet_env :: submit_env where
  \<comment> \<open>a signed-in user and no fault\<close>
  "quiet_env =
     \<lparr> session_user = Some alice, random36 = lit ''k3j9'', stamp = lit ''1700000000000'',
       expiry_now = 1700000000000, invalid_time_message = lit ''Invalid time value'',
       upload_fault = None, insert_fault = None, remove_fault = None,
       new_id = lit ''e1'', created_now = 1700000000001 \<rparr>"

definition offline :: provider_error where
  "offline = ProviderError True (lit ''Failed to fetch'')"

definition empty_backend :: backend where
  "empty_backend = \<lparr> objects = Map.empty, files = [] \<rparr>"

definition notes_path :: jsstring where
  "notes_path = lit ''u1/k3j9_1700000000000.txt''"

definition notes_form :: FileUploadState where
  \<comment> \<open>a file selected, two blanks as message\<close>
  "notes_form = initial_form\<lparr>state_file := Some notes_txt, message := lit ''  ''\<rparr>"

definition hello_form :: FileUploadState where
  \<comment> \<open>a message, no file, no expiry\<close>
  "hello_form = initial_form\<lparr>message := lit '' hello '', expiryDays := 0\<rparr>"

definition insert_fails_env :: submit_env where
  "insert_fails_env = quiet_env\<lparr>insert_fault := Some offline\<rparr>"

definition all_fails_env :: submit_env where
  \<comment> \<open>the connection drops after the upload\<close>
  "all_fails_env = quiet_env\<lparr>insert_fault := Some offline, remove_fault := Some offline\<rparr>"

definition notes_row :: file_row where
  \<comment> \<open>alice's entry for \<open>notes.txt\<close>, expiring a week after creation\<close>
  "notes_row =
     \<lparr> row_id = lit ''e1'', name = lit ''notes.txt'', path = Some notes_path,
       recipient_email = Some (lit ''alice@example.org''), expiry_date = Some 1700604800000,
       created_at = 1700000000001, user_id = lit ''u1'', download_count = Some 0,
       view_count = None, row_message = [], type = lit ''file_and_message'' \<rparr>"

definition never_expires :: file_row where
  \<comment> \<open>alice's message, submitted with 0 expiry days\<close>
  "never_expires =
     \<lparr> row_id = lit ''e2'', name = lit ''Message Only'', path = None,
       recipient_email = Some (lit ''alice@example.org''), expiry_date = None,
       created_at = 1700000000002, user_id = lit ''u1'', download_count = Some 0,
       view_count = None, row_message = lit ''hello'', type = lit ''message_only'' \<rparr>"

definition bobs_note :: file_row where
  \<comment> \<open>a message of another principal\<close>
  "bobs_note = never_expires\<lparr>row_id := lit ''e3'', user_id := lit ''u2''\<rparr>"

definition shared_backend :: backend where
  \<comment> \<open>the bucket holds \<open>notes.txt\<close>; the table holds rows of two principals\<close>
  "shared_backend =
     \<lparr> objects = [notes_path \<mapsto> notes_txt],
       files = [notes_row, never_expires, bobs_note] \<rparr>"

definition orphaned_backend :: backend where
  \<comment> \<open>the table holds the entry for \<open>notes.txt\<close>, the bucket holds nothing\<close>
  "orphaned_backend = \<lparr> objects = Map.empty, files = [notes_row] \<rparr>"

definition quiet_link_env :: link_env where
  \<comment> \<open>no fault; the storage signs with this URL\<close>
  "quiet_link_env =
     \<lparr> list_fault = None, sign_fault = None,
       signed_url = Some (lit ''https://storage.example.org/sign/u1/notes?token=t''),
       clipboard_ok = True, update_fault = None, reread_fault = None \<rparr>"

definition lookup_down :: link_env where
  \<comment> \<open>the \<open>list\<close> request fails\<close>
  "lookup_down = quiet_link_env\<lparr>list_fault := Some offline\<rparr>"

section \<open>Properties of \<open>trim\<close>\<close>

lemma trim_Nil_iff_dropWhile: "trim s = [] \<longleftrightarrow> dropWhile is_whitespace s = []"
proof
  assume "trim s = []"
  then have all: "\<forall>x \<in> set (dropWhile is_whitespace s). is_whitespace x"
    by (simp add: trim_def dropWhile_eq_Nil_conv)
  show "dropWhile is_whitespace s = []"
  proof (rule ccontr)
    assume ne: "dropWhile is_whitespace s \<noteq> []"
    then have "\<not> is_whitespace (hd (dropWhile is_whitespace s))" by (rule hd_dropWhile)
    moreover from ne have "hd (dropWhile is_whitespace s) \<in> set (dropWhile is_whitespace s)" by simp
    ultimately show False using all by blast
  qed
next
  assume e: "dropWhile is_whitespace s = []"
  show "trim s = []" by (simp only: trim_def e rev.simps dropWhile.simps)
qed

lemma trim_empty_iff: "trim s = [] \<longleftrightarrow> list_all is_whitespace s"
  by (simp add: trim_Nil_iff_dropWhile dropWhile_eq_Nil_conv list_all_iff)

lemma trim_suffix:
  "dropWhile is_whitespace s =
     trim s @ rev (takeWhile is_whitespace (rev (dropWhile is_whitespace s)))"
proof -
  have "rev (dropWhile is_whitespace s) =
        takeWhile is_whitespace (rev (dropWhile is_whitespace s)) @ rev (trim s)"
    by (simp add: trim_def)
  then have "rev (rev (dropWhile is_whitespace s)) =
        rev (takeWhile is_whitespace (rev (dropWhile is_whitespace s)) @ rev (trim s))"
    by (rule arg_cong)
  then show ?thesis by simp
qed

lemma trim_decomp:
  "\<exists>pre suf. s = pre @ trim s @ suf \<and> list_all is_whitespace pre \<and> list_all is_whitespace suf"
proof -
  let ?a = "takeWhile is_whitespace s"
  let ?r = "dropWhile is_whitespace s"
  let ?b = "rev (takeWhile is_whitespace (rev ?r))"
  have "s = ?a @ ?r" by simp
  also have "?r = trim s @ ?b" by (rule trim_suffix)
  finally have 1: "s = ?a @ trim s @ ?b" .
  have 3: "list_all is_whitespace ?a" by (auto simp: list_all_iff dest: set_takeWhileD)
  have 4: "list_all is_whitespace ?b" by (auto simp: list_all_iff dest: set_takeWhileD)
  from 1 3 4 show ?thesis by blast
qed

lemma trim_ends:
  assumes "trim s \<noteq> []"
  shows "\<not> is_whitespace (hd (trim s)) \<and> \<not> is_whitespace (last (trim s))"
proof
  have ne: "dropWhile is_whitespace s \<noteq> []" using assms by (simp add: trim_Nil_iff_dropWhile)
  have "hd (dropWhile is_whitespace s) = hd (trim s)"
    using assms trim_suffix [of s] by (metis hd_append2)
  with hd_dropWhile [OF ne] show "\<not> is_whitespace (hd (trim s))" by simp
next
  let ?d = "dropWhile is_whitespace (rev (dropWhile is_whitespace s))"
  have ne: "?d \<noteq> []" using assms by (simp add: trim_def)
  have "last (trim s) = hd ?d" using ne by (simp add: trim_def last_rev)
  with hd_dropWhile [OF ne] show "\<not> is_whitespace (last (trim s))" by simp
qed

section \<open>Submission\<close>

lemma notes_path_generated:
  "random36 env = lit ''k3j9'' \<Longrightarrow> stamp env = lit ''1700000000000'' \<Longrightarrow>
   filePath_of env alice (Some notes_txt) = notes_path"
  by (simp add: filePath_of_def alice_def notes_txt_def notes_path_def lit_def fileExt_def)

lemma filePath_of_nonempty: "filePath_of env u (Some f) \<noteq> []"
  by (simp add: filePath_of_def lit_def)

lemma handleSubmit_insert_failed:
  assumes f: "state_file st = Some f"
    and u: "session_user env = Some u"
    and up: "upload_fault env = None" "objects be (filePath_of env u (Some f)) = None"
    and d: "expiryDays st = 0 \<or> \<bar>expiry_time env st\<bar> \<le> max_time_value"
    and ins: "insert_fault env = Some e"
  shows "handleSubmit st env be =
     caught st env
       \<lparr>objects = snd (storage_remove (remove_fault env) (filePath_of env u (Some f))
                         ((objects be)(filePath_of env u (Some f) \<mapsto> f))),
        files = files be\<rparr>
       [Upload (filePath_of env u (Some f)), Insert (record_of st env u),
        Remove (filePath_of env u (Some f))]
       (PersistenceError e)"
proof -
  from d have nr: "(expiryDays st \<noteq> 0 \<and> max_time_value < \<bar>expiry_time env st\<bar>) = False"
    by auto
  show ?thesis
    using f u up ins filePath_of_nonempty [of env u f]
    by (simp add: handleSubmit_def after_insert_def storage_upload_def table_insert_def
          Let_def nr split: prod.splits)
qed

text \<open>
  C1. A submission without a file whose message is empty or consists of whitespace only is
  rejected with \<open>ValidationError\<close>, and nothing is requested from the bucket or the table:
  the store is unchanged and no call is issued. A submission with a file, or with a message
  that is not empty after trimming, does not end in \<open>ValidationError\<close>.
\<close>

theorem C1_entry_validation:
  "(state_file st = None \<and> list_all is_whitespace (message st) \<longrightarrow>
      result (handleSubmit st env be) = Inl ValidationError \<and>
      store (handleSubmit st env be) = be \<and>
      calls (handleSubmit st env be) = [])
   \<and> (state_file st \<noteq> None \<or> trim (message st) \<noteq> [] \<longrightarrow>
      result (handleSubmit st env be) \<noteq> Inl ValidationError)"
  by (auto simp: handleSubmit_def trim_empty_iff caught_def after_insert_def Let_def
        split: option.splits prod.splits)

theorem C1_entry_validation_witness:
  "state_file (initial_form\<lparr>message := lit ''  ''\<rparr>) = None
   \<and> list_all is_whitespace (message (initial_form\<lparr>message := lit ''  ''\<rparr>))
   \<and> result (handleSubmit (initial_form\<lparr>message := lit ''  ''\<rparr>) quiet_env empty_backend)
       = Inl ValidationError
   \<and> store (handleSubmit (initial_form\<lparr>message := lit ''  ''\<rparr>) quiet_env empty_backend)
       = empty_backend
   \<and> calls (handleSubmit (initial_form\<lparr>message := lit ''  ''\<rparr>) quiet_env empty_backend) = []
   \<and> trim (message (initial_form\<lparr>message := lit '' hi''\<rparr>)) \<noteq> []
   \<and> result (handleSubmit (initial_form\<lparr>message := lit '' hi''\<rparr>) quiet_env empty_backend)
       \<noteq> Inl ValidationError"
proof -
  have blank: "state_file (initial_form\<lparr>message := lit ''  ''\<rparr>) = None
      \<and> list_all is_whitespace (message (initial_form\<lparr>message := lit ''  ''\<rparr>))"
    by (simp add: initial_form_def lit_def is_whitespace_def)
  have hi: "trim (message (initial_form\<lparr>message := lit '' hi''\<rparr>)) \<noteq> []"
    by (simp add: initial_form_def lit_def trim_def is_whitespace_def)
  from C1_entry_validation [of "initial_form\<lparr>message := lit ''  ''\<rparr>" quiet_env empty_backend]
    C1_entry_validation [of "initial_form\<lparr>message := lit '' hi''\<rparr>" quiet_env empty_backend]
    blank hi
  show ?thesis by blast
qed

lemma notes_form_file: "state_file notes_form = Some notes_txt"
  by (simp add: notes_form_def initial_form_def)

lemma notes_form_expiry:
  "expiry_now env = 1700000000000 \<Longrightarrow>
   expiryDays notes_form = 0 \<or> \<bar>expiry_time env notes_form\<bar> \<le> max_time_value"
  by (simp add: expiry_time_def notes_form_def initial_form_def max_time_value_def)

text \<open>
  C2 (as amended). When the upload has succeeded and the record write is issued and fails,
  \<open>handleSubmit\<close> requests the delete of the stored blob after the failed insert and then
  surfaces the insert's error; the table is unchanged. The answer of that delete is not
  inspected. If the delete succeeds, the blob does not exist afterwards and bucket and
  table are what they were before the submission.
\<close>

theorem C2_compensating_delete:
  assumes f: "state_file st = Some f"
    and u: "session_user env = Some u"
    and up: "upload_fault env = None" "objects be (filePath_of env u (Some f)) = None"
    and d: "expiryDays st = 0 \<or> \<bar>expiry_time env st\<bar> \<le> max_time_value"
    and ins: "insert_fault env = Some e"
  shows "calls (handleSubmit st env be) =
           [Upload (filePath_of env u (Some f)), Insert (record_of st env u),
            Remove (filePath_of env u (Some f))]
       \<and> result (handleSubmit st env be) = Inl (PersistenceError e)
       \<and> files (store (handleSubmit st env be)) = files be
       \<and> (remove_fault env = None \<longrightarrow>
            objects (store (handleSubmit st env be)) (filePath_of env u (Some f)) = None
            \<and> store (handleSubmit st env be) = be)"
proof -
  note eq = handleSubmit_insert_failed [OF f u up d ins]
  have a: "calls (handleSubmit st env be) =
           [Upload (filePath_of env u (Some f)), Insert (record_of st env u),
            Remove (filePath_of env u (Some f))]"
    by (simp add: eq caught_def)
  have b: "result (handleSubmit st env be) = Inl (PersistenceError e)"
    by (simp add: eq caught_def)
  have c: "files (store (handleSubmit st env be)) = files be"
    by (simp add: eq caught_def)
  have d1: "remove_fault env = None \<longrightarrow>
            objects (store (handleSubmit st env be)) (filePath_of env u (Some f)) = None
            \<and> store (handleSubmit st env be) = be"
  proof
    assume r: "remove_fault env = None"
    have "(objects be)(filePath_of env u (Some f) := None) = objects be"
      using up(2) by (simp add: fun_upd_idem)
    then have "store (handleSubmit st env be) = \<lparr>objects = objects be, files = files be\<rparr>"
      by (simp add: eq caught_def storage_remove_def r)
    then have "store (handleSubmit st env be) = be" by simp
    with up(2) show "objects (store (handleSubmit st env be)) (filePath_of env u (Some f)) = None
            \<and> store (handleSubmit st env be) = be" by simp
  qed
  from a b c d1 show ?thesis by blast
qed

theorem C2_compensating_delete_witness:
  "state_file notes_form = Some notes_txt
   \<and> session_user insert_fails_env = Some alice
   \<and> upload_fault insert_fails_env = None
   \<and> objects empty_backend notes_path = None
   \<and> insert_fault insert_fails_env = Some offline
   \<and> remove_fault insert_fails_env = None
   \<and> calls (handleSubmit notes_form insert_fails_env empty_backend)
       = [Upload notes_path, Insert (record_of notes_form insert_fails_env alice),
          Remove notes_path]
   \<and> result (handleSubmit notes_form insert_fails_env empty_backend)
       = Inl (PersistenceError offline)
   \<and> objects (store (handleSubmit notes_form insert_fails_env empty_backend)) notes_path = None
   \<and> store (handleSubmit notes_form insert_fails_env empty_backend) = empty_backend"
proof -
  have p: "filePath_of insert_fails_env alice (Some notes_txt) = notes_path"
    by (rule notes_path_generated) (simp_all add: insert_fails_env_def quiet_env_def)
  have 2: "session_user insert_fails_env = Some alice"
    and 3: "upload_fault insert_fails_env = None"
    and 6: "insert_fault insert_fails_env = Some offline"
    and 7: "remove_fault insert_fails_env = None"
    by (simp_all add: insert_fails_env_def quiet_env_def)
  have 4: "objects empty_backend (filePath_of insert_fails_env alice (Some notes_txt)) = None"
    by (simp add: empty_backend_def)
  have 5: "expiryDays notes_form = 0
      \<or> \<bar>expiry_time insert_fails_env notes_form\<bar> \<le> max_time_value"
    by (rule notes_form_expiry) (simp add: insert_fails_env_def quiet_env_def)
  from C2_compensating_delete [OF notes_form_file 2 3 4 5 6] 7 notes_form_file 2 3 4 6
  show ?thesis by (simp add: p)
qed

text \<open>
  The claim as stated fails when the compensating delete fails too: the upload went
  through, the insert failed, the delete was requested, and the blob is still stored.
\<close>

theorem C2_blob_remains_counterexample:
  "calls (handleSubmit notes_form all_fails_env empty_backend)
     = [Upload notes_path, Insert (record_of notes_form all_fails_env alice), Remove notes_path]
   \<and> result (handleSubmit notes_form all_fails_env empty_backend)
     = Inl (PersistenceError offline)
   \<and> objects empty_backend notes_path = None
   \<and> objects (store (handleSubmit notes_form all_fails_env empty_backend)) notes_path
     = Some notes_txt"
proof -
  have p: "filePath_of all_fails_env alice (Some notes_txt) = notes_path"
    by (rule notes_path_generated) (simp_all add: all_fails_env_def quiet_env_def)
  have 2: "session_user all_fails_env = Some alice"
    and 3: "upload_fault all_fails_env = None"
    and 6: "insert_fault all_fails_env = Some offline"
    and 7: "remove_fault all_fails_env = Some offline"
    by (simp_all add: all_fails_env_def quiet_env_def)
  have 4: "objects empty_backend (filePath_of all_fails_env alice (Some notes_txt)) = None"
    by (simp add: empty_backend_def)
  have 5: "expiryDays notes_form = 0 \<or> \<bar>expiry_time all_fails_env notes_form\<bar> \<le> max_time_value"
    by (rule notes_form_expiry) (simp add: all_fails_env_def quiet_env_def)
  note h = handleSubmit_insert_failed [OF notes_form_file 2 3 4 5 6]
  show ?thesis
    unfolding h p by (simp add: 7 caught_def storage_remove_def empty_backend_def)
qed

lemma files_empty_backend: "files empty_backend = []"
  by (simp add: empty_backend_def)

lemma handleSubmit_success:
  assumes "result (handleSubmit st env be) = Inr ()"
  shows "\<exists>u. session_user env = Some u
           \<and> \<not> (state_file st = None \<and> trim (message st) = [])
           \<and> files (store (handleSubmit st env be))
               = files be @ [new_row (new_id env) (created_now env) (record_of st env u)]"
  using assms
  by (auto simp: handleSubmit_def caught_def after_insert_def table_insert_def Let_def
        split: option.splits prod.splits if_splits)

lemma handleSubmit_message_sent:
  assumes f: "state_file st = None"
    and m: "trim (message st) \<noteq> []"
    and u: "session_user env = Some u"
    and d: "expiryDays st = 0 \<or> \<bar>expiry_time env st\<bar> \<le> max_time_value"
    and ins: "insert_fault env = None"
  shows "result (handleSubmit st env be) = Inr ()
     \<and> calls (handleSubmit st env be) = [Insert (record_of st env u)]
     \<and> store (handleSubmit st env be)
         = be\<lparr>files := files be @ [new_row (new_id env) (created_now env) (record_of st env u)]\<rparr>"
proof -
  from d have nr: "(expiryDays st \<noteq> 0 \<and> max_time_value < \<bar>expiry_time env st\<bar>) = False"
    by auto
  show ?thesis
    using f m u ins
    by (simp add: handleSubmit_def after_insert_def table_insert_def Let_def nr filePath_of_def)
qed

lemma handleSubmit_file_sent:
  assumes f: "state_file st = Some f"
    and u: "session_user env = Some u"
    and up: "upload_fault env = None" "objects be (filePath_of env u (Some f)) = None"
    and d: "expiryDays st = 0 \<or> \<bar>expiry_time env st\<bar> \<le> max_time_value"
    and ins: "insert_fault env = None"
  shows "result (handleSubmit st env be) = Inr ()
     \<and> calls (handleSubmit st env be)
         = [Upload (filePath_of env u (Some f)), Insert (record_of st env u)]
     \<and> store (handleSubmit st env be)
         = \<lparr>objects = (objects be)(filePath_of env u (Some f) \<mapsto> f),
            files = files be @ [new_row (new_id env) (created_now env) (record_of st env u)]\<rparr>"
proof -
  from d have nr: "(expiryDays st \<noteq> 0 \<and> max_time_value < \<bar>expiry_time env st\<bar>) = False"
    by auto
  show ?thesis
    using f u up ins
    by (simp add: handleSubmit_def after_insert_def storage_upload_def table_insert_def
          Let_def nr split: prod.splits)
qed

lemma hello_submitted:
  "result (handleSubmit hello_form quiet_env empty_backend) = Inr ()
   \<and> calls (handleSubmit hello_form quiet_env empty_backend)
       = [Insert (record_of hello_form quiet_env alice)]
   \<and> store (handleSubmit hello_form quiet_env empty_backend)
       = empty_backend\<lparr>files := files empty_backend @
           [new_row (new_id quiet_env) (created_now quiet_env) (record_of hello_form quiet_env alice)]\<rparr>"
proof (rule handleSubmit_message_sent)
  show "state_file hello_form = None" by (simp add: hello_form_def initial_form_def)
  show "trim (message hello_form) \<noteq> []"
    by (simp add: hello_form_def initial_form_def trim_def lit_def is_whitespace_def)
  show "session_user quiet_env = Some alice" by (simp add: quiet_env_def)
  show "expiryDays hello_form = 0 \<or> \<bar>expiry_time quiet_env hello_form\<bar> \<le> max_time_value"
    by (simp add: hello_form_def initial_form_def)
  show "insert_fault quiet_env = None" by (simp add: quiet_env_def)
qed

lemma notes_submitted:
  "result (handleSubmit notes_form quiet_env empty_backend) = Inr ()
   \<and> calls (handleSubmit notes_form quiet_env empty_backend)
       = [Upload (filePath_of quiet_env alice (Some notes_txt)),
          Insert (record_of notes_form quiet_env alice)]
   \<and> store (handleSubmit notes_form quiet_env empty_backend)
       = \<lparr>objects = (objects empty_backend)(filePath_of quiet_env alice (Some notes_txt) \<mapsto> notes_txt),
          files = files empty_backend @
           [new_row (new_id quiet_env) (created_now quiet_env) (record_of notes_form quiet_env alice)]\<rparr>"
proof (rule handleSubmit_file_sent)
  show "state_file notes_form = Some notes_txt" by (rule notes_form_file)
  show "session_user quiet_env = Some alice" by (simp add: quiet_env_def)
  show "upload_fault quiet_env = None" by (simp add: quiet_env_def)
  show "objects empty_backend (filePath_of quiet_env alice (Some notes_txt)) = None"
    by (simp add: empty_backend_def)
  show "expiryDays notes_form = 0 \<or> \<bar>expiry_time quiet_env notes_form\<bar> \<le> max_time_value"
    by (rule notes_form_expiry) (simp add: quiet_env_def)
  show "insert_fault quiet_env = None" by (simp add: quiet_env_def)
qed

text \<open>
  C6. After a successful submission the table holds one more row, the created Entry.
  Without a file (the message is then not empty after trimming) its \<open>path\<close> is \<open>null\<close> and
  its \<open>type\<close> is \<open>message_only\<close>; with a file its \<open>path\<close> is not \<open>null\<close> and its \<open>type\<close>
  is \<open>file_and_message\<close>, whatever the message.
\<close>

theorem C6_kind_from_payload:
  assumes "result (handleSubmit st env be) = Inr ()"
  shows "\<exists>row. files (store (handleSubmit st env be)) = files be @ [row]
     \<and> (state_file st = None \<longrightarrow>
          trim (message st) \<noteq> [] \<and> path row = None \<and> type row = lit ''message_only'')
     \<and> (state_file st \<noteq> None \<longrightarrow>
          path row \<noteq> None \<and> type row = lit ''file_and_message'')"
proof -
  from handleSubmit_success [OF assms] obtain u where
    v: "\<not> (state_file st = None \<and> trim (message st) = [])" and
    r: "files (store (handleSubmit st env be))
               = files be @ [new_row (new_id env) (created_now env) (record_of st env u)]"
    by blast
  let ?row = "new_row (new_id env) (created_now env) (record_of st env u)"
  have 1: "state_file st = None \<longrightarrow>
          trim (message st) \<noteq> [] \<and> path ?row = None \<and> type ?row = lit ''message_only''"
    using v by (auto simp add: new_row_def record_of_def filePath_of_def)
  have 2: "state_file st \<noteq> None \<longrightarrow> path ?row \<noteq> None \<and> type ?row = lit ''file_and_message''"
  proof
    assume "state_file st \<noteq> None"
    then obtain f where f: "state_file st = Some f" by blast
    show "path ?row \<noteq> None \<and> type ?row = lit ''file_and_message''"
      using filePath_of_nonempty [of env u f] by (simp add: new_row_def record_of_def f)
  qed
  show ?thesis
    by (rule exI [of _ ?row]) (use r 1 2 in simp)
qed

theorem C6_kind_from_payload_witness:
  "result (handleSubmit hello_form quiet_env empty_backend) = Inr ()
   \<and> state_file hello_form = None
   \<and> (\<exists>row. files (store (handleSubmit hello_form quiet_env empty_backend)) = [row]
        \<and> path row = None \<and> type row = lit ''message_only'')
   \<and> result (handleSubmit notes_form quiet_env empty_backend) = Inr ()
   \<and> state_file notes_form \<noteq> None
   \<and> (\<exists>row. files (store (handleSubmit notes_form quiet_env empty_backend)) = [row]
        \<and> path row \<noteq> None \<and> type row = lit ''file_and_message'')"
proof -
  have h: "result (handleSubmit hello_form quiet_env empty_backend) = Inr ()"
    by (simp add: hello_submitted)
  have n: "result (handleSubmit notes_form quiet_env empty_backend) = Inr ()"
    by (simp add: notes_submitted)
  have hf: "state_file hello_form = None" by (simp add: hello_form_def initial_form_def)
  have nf: "state_file notes_form \<noteq> None" by (simp add: notes_form_file)
  from C6_kind_from_payload [OF h] C6_kind_from_payload [OF n] h n hf nf
  show ?thesis by (auto simp add: files_empty_backend)
qed

text \<open>
  C7 (as amended). The record of a successful submission is written with
  \<open>download_count\<close> 0. The insert supplies no view count: the created row has none, which
  the dashboard shows as 0.
\<close>

theorem C7_counters_of_new_entry:
  assumes "result (handleSubmit st env be) = Inr ()"
  shows "\<exists>row. files (store (handleSubmit st env be)) = files be @ [row]
     \<and> download_count row = Some 0 \<and> view_count row = None \<and> view_count_shown row = 0"
proof -
  from handleSubmit_success [OF assms] obtain u where
    r: "files (store (handleSubmit st env be))
               = files be @ [new_row (new_id env) (created_now env) (record_of st env u)]"
    by blast
  then show ?thesis by (simp add: new_row_def record_of_def view_count_shown_def)
qed

theorem C7_counters_of_new_entry_witness:
  "result (handleSubmit hello_form quiet_env empty_backend) = Inr ()
   \<and> (\<exists>row. files (store (handleSubmit hello_form quiet_env empty_backend)) = [row]
        \<and> download_count row = Some 0 \<and> view_count row = None \<and> view_count_shown row = 0)"
proof -
  have h: "result (handleSubmit hello_form quiet_env empty_backend) = Inr ()"
    by (simp add: hello_submitted)
  from C7_counters_of_new_entry [OF h] h show ?thesis by (auto simp add: files_empty_backend)
qed

text \<open>
  The claim as stated asks for a view count of 0 in the written record; the row created
  for the message "hello" has a download count of 0 and no view count.
\<close>

theorem C7_view_count_counterexample:
  "result (handleSubmit hello_form quiet_env empty_backend) = Inr ()
   \<and> map download_count (files (store (handleSubmit hello_form quiet_env empty_backend)))
       = [Some 0]
   \<and> map view_count (files (store (handleSubmit hello_form quiet_env empty_backend)))
       = [None]"
  by (simp add: hello_submitted new_row_def record_of_def files_empty_backend)

text \<open>
  C10. The message of the Entry created by a successful submission is the input message
  without its leading and trailing whitespace: it is \<open>trim\<close> of the input, the input is
  that message between two runs of whitespace, and the message neither starts nor ends
  with whitespace. A submission whose message is whitespace only succeeds only with a
  file, and then stores the empty message.
\<close>

theorem C10_message_trimmed:
  assumes "result (handleSubmit st env be) = Inr ()"
  shows "\<exists>row pre suf. files (store (handleSubmit st env be)) = files be @ [row]
     \<and> row_message row = trim (message st)
     \<and> message st = pre @ row_message row @ suf
     \<and> list_all is_whitespace pre \<and> list_all is_whitespace suf
     \<and> (row_message row = []
          \<or> \<not> is_whitespace (hd (row_message row)) \<and> \<not> is_whitespace (last (row_message row)))
     \<and> (list_all is_whitespace (message st) \<longrightarrow> state_file st \<noteq> None \<and> row_message row = [])"
proof -
  from handleSubmit_success [OF assms] obtain u where
    v: "\<not> (state_file st = None \<and> trim (message st) = [])" and
    r: "files (store (handleSubmit st env be))
               = files be @ [new_row (new_id env) (created_now env) (record_of st env u)]"
    by blast
  let ?row = "new_row (new_id env) (created_now env) (record_of st env u)"
  have m: "row_message ?row = trim (message st)" by (simp add: new_row_def record_of_def)
  from trim_decomp [of "message st"] obtain pre suf where
    d: "message st = pre @ trim (message st) @ suf" "list_all is_whitespace pre"
       "list_all is_whitespace suf" by blast
  have e: "trim (message st) = []
          \<or> \<not> is_whitespace (hd (trim (message st))) \<and> \<not> is_whitespace (last (trim (message st)))"
    using trim_ends [of "message st"] by blast
  have w: "list_all is_whitespace (message st) \<longrightarrow> state_file st \<noteq> None \<and> trim (message st) = []"
    using v by (auto simp add: trim_empty_iff)
  show ?thesis
    by (rule exI [of _ ?row], rule exI [of _ pre], rule exI [of _ suf])
       (use r m d e w in simp)
qed

theorem C10_message_trimmed_witness:
  "result (handleSubmit notes_form quiet_env empty_backend) = Inr ()
   \<and> list_all is_whitespace (message notes_form)
   \<and> message notes_form \<noteq> []
   \<and> (\<exists>row. files (store (handleSubmit notes_form quiet_env empty_backend)) = [row]
        \<and> row_message row = [])
   \<and> result (handleSubmit hello_form quiet_env empty_backend) = Inr ()
   \<and> message hello_form = lit '' hello ''
   \<and> (\<exists>row. files (store (handleSubmit hello_form quiet_env empty_backend)) = [row]
        \<and> row_message row = lit ''hello'')"
proof -
  have n: "result (handleSubmit notes_form quiet_env empty_backend) = Inr ()"
    by (simp add: notes_submitted)
  have h: "result (handleSubmit hello_form quiet_env empty_backend) = Inr ()"
    by (simp add: hello_submitted)
  have w: "list_all is_whitespace (message notes_form) \<and> message notes_form \<noteq> []"
    by (simp add: notes_form_def initial_form_def lit_def is_whitespace_def)
  have m: "message hello_form = lit '' hello ''" by (simp add: hello_form_def initial_form_def)
  have t: "trim (lit '' hello '') = lit ''hello''"
    by (simp add: trim_def lit_def is_whitespace_def)
  from C10_message_trimmed [OF n] C10_message_trimmed [OF h] n h w m t
  show ?thesis by (auto simp add: files_empty_backend)
qed

section \<open>Selecting a file in the styled form\<close>

lemma no_upload_without_file:
  "state_file st = None \<Longrightarrow> Upload p \<notin> set (calls (handleSubmit st env be))"
  by (auto simp: handleSubmit_def caught_def after_insert_def table_insert_def Let_def
        filePath_of_def split: option.splits prod.splits if_splits)

lemma validateFile_too_big:
  "file_size f > 50 * 1024 * 1024 \<Longrightarrow>
   validateFile fmt f = Some (lit ''File size exceeds 50MB limit ('' @ fmt (file_size f) @ lit '')'')
   \<and> truthy (Some (lit ''File size exceeds 50MB limit ('' @ fmt (file_size f) @ lit '')''))"
  by (simp add: validateFile_def MAX_FILE_SIZE_def truthy_def lit_def)

lemma size_limit_is_strict:
  "file_size f \<le> 50 * 1024 * 1024 \<Longrightarrow>
   handleFileChange fmt st (Some f) = st\<lparr>state_file := Some f, error := None\<rparr>
   \<and> handleDrop fmt st (Some f) = st\<lparr>state_file := Some f, error := None\<rparr>"
  by (simp add: handleFileChange_def handleDrop_def validateFile_def MAX_FILE_SIZE_def truthy_def)

text \<open>
  C9. In the styled form, a selected or dropped file of more than \<open>50 * 1024 * 1024\<close>
  bytes is rejected: \<open>error\<close> becomes the size-limit message, \<open>file\<close> is \<open>null\<close> afterwards,
  the handlers themselves request nothing from the backend (they only compute the new form
  state), and a submission of the resulting state issues no upload.
\<close>

theorem C9_size_limit:
  assumes "file_size f > 50 * 1024 * 1024"
  shows "handleFileChange fmt st (Some f)
           = st\<lparr>error := Some (lit ''File size exceeds 50MB limit ('' @ fmt (file_size f) @ lit '')''),
                state_file := None\<rparr>
       \<and> handleDrop fmt st (Some f)
           = st\<lparr>error := Some (lit ''File size exceeds 50MB limit ('' @ fmt (file_size f) @ lit '')''),
                state_file := None\<rparr>
       \<and> state_file (handleFileChange fmt st (Some f)) = None
       \<and> state_file (handleDrop fmt st (Some f)) = None
       \<and> Upload p \<notin> set (calls (handleSubmit (handleFileChange fmt st (Some f)) env be))
       \<and> Upload p \<notin> set (calls (handleSubmit (handleDrop fmt st (Some f)) env be))"
proof -
  note v = validateFile_too_big [OF assms, of fmt]
  have c: "handleFileChange fmt st (Some f)
           = st\<lparr>error := Some (lit ''File size exceeds 50MB limit ('' @ fmt (file_size f) @ lit '')''),
                state_file := None\<rparr>"
    using v by (simp add: handleFileChange_def)
  have d: "handleDrop fmt st (Some f)
           = st\<lparr>error := Some (lit ''File size exceeds 50MB limit ('' @ fmt (file_size f) @ lit '')''),
                state_file := None\<rparr>"
    using v by (simp add: handleDrop_def)
  have cn: "state_file (handleFileChange fmt st (Some f)) = None" by (simp add: c)
  have dn: "state_file (handleDrop fmt st (Some f)) = None" by (simp add: d)
  from c d cn dn no_upload_without_file [OF cn] no_upload_without_file [OF dn]
  show ?thesis by blast
qed

theorem C9_size_limit_witness:
  "file_size big_iso > 50 * 1024 * 1024
   \<and> state_file (handleFileChange (\<lambda>n. lit ''50 MB'') notes_form (Some big_iso)) = None
   \<and> error (handleFileChange (\<lambda>n. lit ''50 MB'') notes_form (Some big_iso))
       = Some (lit ''File size exceeds 50MB limit (50 MB)'')
   \<and> state_file (handleDrop (\<lambda>n. lit ''50 MB'') notes_form (Some big_iso)) = None
   \<and> Upload notes_path \<notin> set (calls
        (handleSubmit (handleFileChange (\<lambda>n. lit ''50 MB'') notes_form (Some big_iso))
           quiet_env empty_backend))"
proof -
  have b: "file_size big_iso > 50 * 1024 * 1024" by (simp add: big_iso_def)
  note t = C9_size_limit [OF b, of "\<lambda>n. lit ''50 MB''" notes_form notes_path quiet_env
      empty_backend]
  from t have eq: "handleFileChange (\<lambda>n. lit ''50 MB'') notes_form (Some big_iso)
      = notes_form\<lparr>error := Some (lit ''File size exceeds 50MB limit ('' @ lit ''50 MB'' @ lit '')''),
                   state_file := None\<rparr>"
    by blast
  have e: "error (handleFileChange (\<lambda>n. lit ''50 MB'') notes_form (Some big_iso))
       = Some (lit ''File size exceeds 50MB limit (50 MB)'')"
    unfolding eq by (simp add: lit_def)
  from t b e show ?thesis by blast
qed

section \<open>Paths\<close>

lemma split_on_nonempty: "split_on c xs \<noteq> []"
  by (induction xs) (auto split: list.splits)

lemma split_on_single: "split_on c xs = [n] \<Longrightarrow> xs = n"
proof (induction xs arbitrary: n)
  case Nil
  then show ?case by simp
next
  case (Cons x xs)
  show ?case
  proof (cases "x = c")
    case True
    with Cons.prems split_on_nonempty [of c xs] show ?thesis by simp
  next
    case False
    obtain y ys where s: "split_on c xs = y # ys"
      using split_on_nonempty [of c xs] by (cases "split_on c xs") auto
    with Cons.prems False have "ys = []" "n = x # y" by auto
    with s Cons.IH [of y] show ?thesis by simp
  qed
qed

lemma split_on_pair: "split_on c xs = [d, n] \<Longrightarrow> xs = d @ c # n"
proof (induction xs arbitrary: d)
  case Nil
  then show ?case by simp
next
  case (Cons x xs)
  show ?case
  proof (cases "x = c")
    case True
    with Cons.prems have "d = []" "split_on c xs = [n]" by auto
    with True split_on_single [of c xs n] show ?thesis by simp
  next
    case False
    obtain y ys where s: "split_on c xs = y # ys"
      using split_on_nonempty [of c xs] by (cases "split_on c xs") auto
    with Cons.prems False have "ys = [n]" "d = x # y" by auto
    with s Cons.IH [of y] show ?thesis by simp
  qed
qed

lemma split_on_no_sep: "c \<notin> set xs \<Longrightarrow> split_on c xs = [xs]"
  by (induction xs) auto

lemma split_on_append: "c \<notin> set a \<Longrightarrow> split_on c (a @ c # b) = a # split_on c b"
  by (induction a) (auto split: list.splits)

lemma split_on_parts: "ys \<in> set (split_on c xs) \<Longrightarrow> set ys \<subseteq> set xs"
proof (induction xs arbitrary: ys)
  case Nil
  then show ?case by simp
next
  case (Cons x xs)
  show ?case
  proof (cases "x = c")
    case True
    with Cons show ?thesis by auto
  next
    case False
    obtain y zs where s: "split_on c xs = y # zs"
      using split_on_nonempty [of c xs] by (cases "split_on c xs") auto
    with Cons.prems False have "ys = x # y \<or> ys \<in> set zs" by auto
    with s Cons.IH show ?thesis by fastforce
  qed
qed

lemma fileExt_chars: "set (fileExt f) \<subseteq> set (file_name f)"
proof -
  obtain x xs where r: "rev (split_on 0x2E (file_name f)) = x # xs"
    using split_on_nonempty [of "0x2E" "file_name f"]
    by (cases "rev (split_on 0x2E (file_name f))") auto
  then have "x \<in> set (split_on 0x2E (file_name f))"
    by (metis list.set_intros(1) set_rev)
  then have "set x \<subseteq> set (file_name f)" by (rule split_on_parts)
  moreover have "fileExt f = x" by (simp add: fileExt_def r)
  ultimately show ?thesis by simp
qed

lemma submitted_path_shape:
  assumes "0x2F \<notin> set (user_id_of u)" "0x2F \<notin> set (random36 env)" "0x2F \<notin> set (stamp env)"
    "0x2F \<notin> set (file_name f)"
  shows "split_on 0x2F (filePath_of env u (Some f))
     = [user_id_of u, random36 env @ lit ''_'' @ stamp env @ lit ''.'' @ fileExt f]"
proof -
  have e: "0x2F \<notin> set (fileExt f)" using assms(4) fileExt_chars [of f] by blast
  have n: "0x2F \<notin> set (random36 env @ lit ''_'' @ stamp env @ lit ''.'' @ fileExt f)"
    using assms e by (simp add: lit_def)
  have "filePath_of env u (Some f)
      = user_id_of u @ 0x2F # (random36 env @ lit ''_'' @ stamp env @ lit ''.'' @ fileExt f)"
    by (simp add: filePath_of_def lit_def)
  then show ?thesis
    using split_on_append [OF assms(1)] split_on_no_sep [OF n] by simp
qed

section \<open>Deleting an Entry\<close>

text \<open>
  An Entry is a row written by a submission: \<open>handleSubmit\<close> is the only writer of \<open>path\<close>,
  and the path it writes is \<open>null\<close> or not empty.
\<close>

lemma written_path_nonempty:
  "path f = p_path (record_of st env u) \<Longrightarrow> path f = Some p \<Longrightarrow> p \<noteq> []"
  by (auto simp: record_of_def split: if_splits)

lemma handleDelete_with_path:
  assumes "path f = Some p" "p \<noteq> []"
  shows "handleDelete uid removeFault deleteFault f be =
     (case removeFault of
        Some e \<Rightarrow> \<lparr> store = be, calls = [Remove p], result = Inl (StorageError e) \<rparr>
      | None \<Rightarrow>
          \<lparr> store = \<lparr>objects = (objects be)(p := None),
                     files = snd (table_delete deleteFault uid (row_id f) (files be))\<rparr>,
            calls = [Remove p, DeleteRow (row_id f)],
            result = (case fst (table_delete deleteFault uid (row_id f) (files be)) of
                        Some e \<Rightarrow> Inl (PersistenceError e) | None \<Rightarrow> Inr ()) \<rparr>)"
  using assms
  by (simp add: handleDelete_def storage_remove_def Let_def split: option.splits prod.splits)

lemma handleDelete_without_path:
  assumes "path f = None"
  shows "handleDelete uid removeFault deleteFault f be =
     \<lparr> store = \<lparr>objects = objects be,
                files = snd (table_delete deleteFault uid (row_id f) (files be))\<rparr>,
       calls = [DeleteRow (row_id f)],
       result = (case fst (table_delete deleteFault uid (row_id f) (files be)) of
                   Some e \<Rightarrow> Inl (PersistenceError e) | None \<Rightarrow> Inr ()) \<rparr>"
  using assms
  by (auto simp add: handleDelete_def Let_def split: option.splits prod.splits)

lemma size_lookups_reads: "list_all is_read (size_lookups data)"
  by (induction data) (auto simp: size_lookups_def lookup_request_def split: option.splits)

lemma fetchDashboardData_reads:
  "list_all is_read (fetchDashboardData_requests selectFault uid rows)"
  by (auto simp: fetchDashboardData_requests_def size_lookups_reads
        split: option.splits sum.splits)

lemma fetchFiles_reads: "list_all is_read (fetchFiles_requests selectFault uid rows)"
  by (auto simp: fetchFiles_requests_def size_lookups_reads split: option.splits sum.splits)

lemma handleDelete_dashboard_with_path:
  assumes "path f = Some p" "p \<noteq> []"
  shows "handleDelete_dashboard uid removeFault deleteFault selectFault (Some f) be =
     (case removeFault of
        Some e \<Rightarrow> \<lparr> store = be, calls = [Remove p], result = Inl (StorageError e) \<rparr>
      | None \<Rightarrow>
          (case fst (table_delete deleteFault uid (row_id f) (files be)) of
             Some e \<Rightarrow>
               \<lparr> store = \<lparr>objects = (objects be)(p := None),
                          files = snd (table_delete deleteFault uid (row_id f) (files be))\<rparr>,
                 calls = [Remove p, DeleteRow (row_id f)],
                 result = Inl (PersistenceError e) \<rparr>
           | None \<Rightarrow>
               \<lparr> store = \<lparr>objects = (objects be)(p := None),
                          files = snd (table_delete deleteFault uid (row_id f) (files be))\<rparr>,
                 calls = Remove p # DeleteRow (row_id f) #
                   fetchDashboardData_requests selectFault uid
                     (snd (table_delete deleteFault uid (row_id f) (files be))),
                 result = Inr (Some ()) \<rparr>))"
  using assms
  by (simp add: handleDelete_dashboard_def storage_remove_def Let_def
        split: option.splits prod.splits)

lemma handleDelete_dashboard_without_path:
  assumes "path f = None"
  shows "handleDelete_dashboard uid removeFault deleteFault selectFault (Some f) be =
     (case fst (table_delete deleteFault uid (row_id f) (files be)) of
        Some e \<Rightarrow>
          \<lparr> store = \<lparr>objects = objects be,
                     files = snd (table_delete deleteFault uid (row_id f) (files be))\<rparr>,
            calls = [DeleteRow (row_id f)],
            result = Inl (PersistenceError e) \<rparr>
      | None \<Rightarrow>
          \<lparr> store = \<lparr>objects = objects be,
                     files = snd (table_delete deleteFault uid (row_id f) (files be))\<rparr>,
            calls = DeleteRow (row_id f) #
              fetchDashboardData_requests selectFault uid
                (snd (table_delete deleteFault uid (row_id f) (files be))),
            result = Inr (Some ()) \<rparr>)"
  using assms
  by (simp add: handleDelete_dashboard_def Let_def split: option.splits prod.splits)

text \<open>
  C3. For an Entry whose \<open>path\<close> is not \<open>null\<close>, both \<open>handleDelete\<close> operations (file list
  and dashboard) request the blob delete first. If it fails they stop: it is the only
  request, the error is the storage error, and the store is unchanged, so the record is
  not deleted. If it succeeds the blob is gone and the delete of the record is the next
  request; the dashboard then only reads. For an Entry whose \<open>path\<close> is \<open>null\<close> the delete
  of the record is the first request and the bucket is untouched.
\<close>

theorem C3_blob_delete_before_record:
  assumes "path f = p_path (record_of st env u)"
  shows "(path f = Some p \<longrightarrow>
      (\<exists>rest. calls (handleDelete uid removeFault deleteFault f be) = Remove p # rest)
      \<and> (\<exists>rest. calls (handleDelete_dashboard uid removeFault deleteFault selectFault (Some f) be)
                  = Remove p # rest)
      \<and> (removeFault = Some e \<longrightarrow>
            calls (handleDelete uid removeFault deleteFault f be) = [Remove p]
            \<and> result (handleDelete uid removeFault deleteFault f be) = Inl (StorageError e)
            \<and> store (handleDelete uid removeFault deleteFault f be) = be
            \<and> calls (handleDelete_dashboard uid removeFault deleteFault selectFault (Some f) be)
                = [Remove p]
            \<and> result (handleDelete_dashboard uid removeFault deleteFault selectFault (Some f) be)
                = Inl (StorageError e)
            \<and> store (handleDelete_dashboard uid removeFault deleteFault selectFault (Some f) be)
                = be)
      \<and> (removeFault = None \<longrightarrow>
            calls (handleDelete uid removeFault deleteFault f be)
                = [Remove p, DeleteRow (row_id f)]
            \<and> objects (store (handleDelete uid removeFault deleteFault f be)) p = None
            \<and> (\<exists>reads.
                  calls (handleDelete_dashboard uid removeFault deleteFault selectFault (Some f) be)
                    = Remove p # DeleteRow (row_id f) # reads
                  \<and> list_all is_read reads)
            \<and> objects (store (handleDelete_dashboard uid removeFault deleteFault selectFault
                  (Some f) be)) p = None))
   \<and> (path f = None \<longrightarrow>
        calls (handleDelete uid removeFault deleteFault f be) = [DeleteRow (row_id f)]
        \<and> objects (store (handleDelete uid removeFault deleteFault f be)) = objects be
        \<and> (\<exists>reads.
              calls (handleDelete_dashboard uid removeFault deleteFault selectFault (Some f) be)
                = DeleteRow (row_id f) # reads
              \<and> list_all is_read reads)
        \<and> objects (store (handleDelete_dashboard uid removeFault deleteFault selectFault
              (Some f) be)) = objects be)"
proof (intro conjI impI)
  assume a: "path f = Some p"
  with assms have ne: "p \<noteq> []" by (rule written_path_nonempty)
  note h = handleDelete_with_path [OF a ne, of uid removeFault deleteFault be]
  note d = handleDelete_dashboard_with_path [OF a ne, of uid removeFault deleteFault selectFault be]
  show "\<exists>rest. calls (handleDelete uid removeFault deleteFault f be) = Remove p # rest"
    by (simp add: h split: option.splits)
  show "\<exists>rest. calls (handleDelete_dashboard uid removeFault deleteFault selectFault (Some f) be)
                  = Remove p # rest"
    by (simp add: d split: option.splits)
  {
    assume r: "removeFault = Some e"
    show "calls (handleDelete uid removeFault deleteFault f be) = [Remove p]"
      unfolding h by (simp add: r)
    show "result (handleDelete uid removeFault deleteFault f be) = Inl (StorageError e)"
      unfolding h by (simp add: r)
    show "store (handleDelete uid removeFault deleteFault f be) = be"
      unfolding h by (simp add: r)
    show "calls (handleDelete_dashboard uid removeFault deleteFault selectFault (Some f) be)
                = [Remove p]"
      unfolding d by (simp add: r)
    show "result (handleDelete_dashboard uid removeFault deleteFault selectFault (Some f) be)
                = Inl (StorageError e)"
      unfolding d by (simp add: r)
    show "store (handleDelete_dashboard uid removeFault deleteFault selectFault (Some f) be)
                = be"
      unfolding d by (simp add: r)
  }
  {
    assume r: "removeFault = None"
    show "calls (handleDelete uid removeFault deleteFault f be)
                = [Remove p, DeleteRow (row_id f)]"
      unfolding h by (simp add: r)
    show "objects (store (handleDelete uid removeFault deleteFault f be)) p = None"
      unfolding h by (simp add: r)
    show "\<exists>reads.
            calls (handleDelete_dashboard uid removeFault deleteFault selectFault (Some f) be)
              = Remove p # DeleteRow (row_id f) # reads
            \<and> list_all is_read reads"
      unfolding d by (simp add: r fetchDashboardData_reads split: option.splits)
    show "objects (store (handleDelete_dashboard uid removeFault deleteFault selectFault
                  (Some f) be)) p = None"
      unfolding d by (simp add: r split: option.splits)
  }
next
  assume a: "path f = None"
  note h = handleDelete_without_path [OF a, of uid removeFault deleteFault be]
  note d = handleDelete_dashboard_without_path [OF a, of uid removeFault deleteFault selectFault be]
  show "calls (handleDelete uid removeFault deleteFault f be) = [DeleteRow (row_id f)]"
    by (simp add: h)
  show "objects (store (handleDelete uid removeFault deleteFault f be)) = objects be"
    by (simp add: h)
  show "\<exists>reads.
          calls (handleDelete_dashboard uid removeFault deleteFault selectFault (Some f) be)
            = DeleteRow (row_id f) # reads
          \<and> list_all is_read reads"
    by (simp add: d fetchDashboardData_reads split: option.splits)
  show "objects (store (handleDelete_dashboard uid removeFault deleteFault selectFault
              (Some f) be)) = objects be"
    by (simp add: d split: option.splits)
qed

lemma sample_row_facts:
  "path notes_row = Some notes_path" "notes_path \<noteq> []" "row_id notes_row = lit ''e1''"
  "path never_expires = None" "row_id never_expires = lit ''e2''"
  "path bobs_note = None" "row_id bobs_note = lit ''e3''" "user_id bobs_note = lit ''u2''"
  "user_id notes_row = lit ''u1''" "user_id never_expires = lit ''u1''"
  by (simp_all add: notes_row_def never_expires_def bobs_note_def notes_path_def lit_def)

lemma sample_ids_differ:
  "lit ''u1'' \<noteq> lit ''u2''" "lit ''e1'' \<noteq> lit ''e2''" "lit ''e1'' \<noteq> lit ''e3''"
  "lit ''e2'' \<noteq> lit ''e3''"
  by (simp_all add: lit_def)

lemma files_shared_backend: "files shared_backend = [notes_row, never_expires, bobs_note]"
  by (simp add: shared_backend_def)

lemma objects_shared_backend: "objects shared_backend = [notes_path \<mapsto> notes_txt]"
  by (simp add: shared_backend_def)

lemma notes_row_written: "path notes_row = p_path (record_of notes_form quiet_env alice)"
proof -
  have "filePath_of quiet_env alice (Some notes_txt) = notes_path"
    by (rule notes_path_generated) (simp_all add: quiet_env_def)
  then show ?thesis
    by (simp add: record_of_def notes_form_file sample_row_facts)
qed

lemma never_expires_written: "path never_expires = p_path (record_of hello_form quiet_env alice)"
  by (simp add: record_of_def hello_form_def initial_form_def filePath_of_def sample_row_facts)

theorem C3_blob_delete_before_record_witness:
  "path notes_row = p_path (record_of notes_form quiet_env alice)
   \<and> path notes_row = Some notes_path
   \<and> calls (handleDelete (Some (lit ''u1'')) (Some offline) None notes_row shared_backend)
       = [Remove notes_path]
   \<and> result (handleDelete (Some (lit ''u1'')) (Some offline) None notes_row shared_backend)
       = Inl (StorageError offline)
   \<and> store (handleDelete (Some (lit ''u1'')) (Some offline) None notes_row shared_backend)
       = shared_backend
   \<and> calls (handleDelete_dashboard (Some (lit ''u1'')) (Some offline) None None (Some notes_row)
        shared_backend) = [Remove notes_path]
   \<and> store (handleDelete_dashboard (Some (lit ''u1'')) (Some offline) None None (Some notes_row)
        shared_backend) = shared_backend
   \<and> calls (handleDelete (Some (lit ''u1'')) None None notes_row shared_backend)
       = [Remove notes_path, DeleteRow (lit ''e1'')]
   \<and> (\<exists>reads. calls (handleDelete_dashboard (Some (lit ''u1'')) None None None (Some notes_row)
                  shared_backend)
                = Remove notes_path # DeleteRow (lit ''e1'') # reads
              \<and> list_all is_read reads)
   \<and> path never_expires = p_path (record_of hello_form quiet_env alice)
   \<and> path never_expires = None
   \<and> calls (handleDelete (Some (lit ''u1'')) None None never_expires shared_backend)
       = [DeleteRow (lit ''e2'')]"
  using C3_blob_delete_before_record
          [OF notes_row_written, of notes_path "Some (lit ''u1'')" "Some offline" None
             shared_backend None offline]
        C3_blob_delete_before_record
          [OF notes_row_written, of notes_path "Some (lit ''u1'')" None None
             shared_backend None offline]
        C3_blob_delete_before_record
          [OF never_expires_written, of notes_path "Some (lit ''u1'')" None None
             shared_backend None offline]
        notes_row_written never_expires_written
  by (simp add: sample_row_facts)

lemma table_delete_of_other:
  assumes "distinct (map row_id rows)" and "f \<in> set rows" and "uid \<noteq> Some (user_id f)"
  shows "snd (table_delete deleteFault uid (row_id f) rows) = rows"
proof -
  have "\<forall>r \<in> set rows. \<not> (uid = Some (user_id r) \<and> row_id r = row_id f)"
  proof
    fix r
    assume r: "r \<in> set rows"
    show "\<not> (uid = Some (user_id r) \<and> row_id r = row_id f)"
    proof
      assume c: "uid = Some (user_id r) \<and> row_id r = row_id f"
      from assms(1) have "inj_on row_id (set rows)" by (simp add: distinct_map)
      with r assms(2) c have "r = f" by (auto dest: inj_onD)
      with c assms(3) show False by simp
    qed
  qed
  then have "filter (\<lambda>r. \<not> (uid = Some (user_id r) \<and> row_id r = row_id f)) rows = rows"
    by (simp add: filter_id_conv)
  then show ?thesis by (simp add: table_delete_def split: option.splits)
qed

text \<open>
  C8 (as amended). \<open>id\<close> is the primary key of the table. A delete requested by a principal
  who does not own the target Entry leaves every record as it was, since the table's
  delete policy skips rows of other owners. It does not fail with \<open>AuthorizationError\<close>:
  the operation makes no ownership check and ends as a success when no request fails. The
  blob is not protected: for an Entry with a blob the blob delete is requested first and,
  when the storage accepts it, the blob is deleted. The bucket is unchanged only for an
  Entry without a blob or when the blob delete fails.
\<close>

theorem C8_delete_by_non_owner:
  assumes "distinct (map row_id (files be))" and "f \<in> set (files be)"
    and "uid \<noteq> Some (user_id f)"
    and "path f = p_path (record_of st env u)"
  shows "files (store (handleDelete uid removeFault deleteFault f be)) = files be
       \<and> result (handleDelete uid removeFault deleteFault f be) \<noteq> Inl AuthorizationError
       \<and> (removeFault = None \<and> deleteFault = None \<longrightarrow>
            result (handleDelete uid removeFault deleteFault f be) = Inr ())
       \<and> (path f = Some p \<longrightarrow>
            (\<exists>rest. calls (handleDelete uid removeFault deleteFault f be) = Remove p # rest)
            \<and> (removeFault = None \<longrightarrow>
                  objects (store (handleDelete uid removeFault deleteFault f be))
                    = (objects be)(p := None))
            \<and> (removeFault \<noteq> None \<longrightarrow>
                  store (handleDelete uid removeFault deleteFault f be) = be))
       \<and> (path f = None \<longrightarrow> store (handleDelete uid removeFault deleteFault f be) = be)"
proof -
  note k = table_delete_of_other [OF assms(1,2,3), of deleteFault]
  have o: "removeFault = None \<and> deleteFault = None \<longrightarrow>
            result (handleDelete uid removeFault deleteFault f be) = Inr ()"
    by (simp add: handleDelete_def storage_remove_def table_delete_def Let_def
        split: option.splits)
  have F: "files (store (handleDelete uid removeFault deleteFault f be)) = files be"
  proof (cases "path f")
    case None
    show ?thesis by (simp add: handleDelete_without_path [OF None] k)
  next
    case (Some q)
    with assms(4) have ne: "q \<noteq> []" by (rule written_path_nonempty)
    show ?thesis by (simp add: handleDelete_with_path [OF Some ne] k split: option.splits)
  qed
  have R: "result (handleDelete uid removeFault deleteFault f be) \<noteq> Inl AuthorizationError"
  proof (cases "path f")
    case None
    show ?thesis by (simp add: handleDelete_without_path [OF None] split: option.splits)
  next
    case (Some q)
    with assms(4) have ne: "q \<noteq> []" by (rule written_path_nonempty)
    show ?thesis by (simp add: handleDelete_with_path [OF Some ne] split: option.splits)
  qed
  have A: "path f = Some p \<longrightarrow>
            (\<exists>rest. calls (handleDelete uid removeFault deleteFault f be) = Remove p # rest)
            \<and> (removeFault = None \<longrightarrow>
                  objects (store (handleDelete uid removeFault deleteFault f be))
                    = (objects be)(p := None))
            \<and> (removeFault \<noteq> None \<longrightarrow>
                  store (handleDelete uid removeFault deleteFault f be) = be)"
  proof
    assume a: "path f = Some p"
    with assms(4) have ne: "p \<noteq> []" by (rule written_path_nonempty)
    note h = handleDelete_with_path [OF a ne, of uid removeFault deleteFault be]
    have 3: "\<exists>rest. calls (handleDelete uid removeFault deleteFault f be) = Remove p # rest"
      by (simp add: h split: option.splits)
    have 4: "removeFault = None \<longrightarrow>
                  objects (store (handleDelete uid removeFault deleteFault f be))
                    = (objects be)(p := None)"
      unfolding h by simp
    have 5: "removeFault \<noteq> None \<longrightarrow> store (handleDelete uid removeFault deleteFault f be) = be"
      unfolding h by auto
    from 3 4 5 show "(\<exists>rest. calls (handleDelete uid removeFault deleteFault f be) = Remove p # rest)
            \<and> (removeFault = None \<longrightarrow>
                  objects (store (handleDelete uid removeFault deleteFault f be))
                    = (objects be)(p := None))
            \<and> (removeFault \<noteq> None \<longrightarrow>
                  store (handleDelete uid removeFault deleteFault f be) = be)"
      by blast
  qed
  have B: "path f = None \<longrightarrow> store (handleDelete uid removeFault deleteFault f be) = be"
  proof
    assume a: "path f = None"
    show "store (handleDelete uid removeFault deleteFault f be) = be"
      by (simp add: handleDelete_without_path [OF a] k)
  qed
  from F R o A B show ?thesis by blast
qed

lemma shared_backend_keys: "distinct (map row_id (files shared_backend))"
  using sample_ids_differ by (simp add: files_shared_backend sample_row_facts)

theorem C8_delete_by_non_owner_witness:
  "distinct (map row_id (files shared_backend))
   \<and> notes_row \<in> set (files shared_backend)
   \<and> Some (lit ''u2'') \<noteq> Some (user_id notes_row)
   \<and> path notes_row = p_path (record_of notes_form quiet_env alice)
   \<and> path notes_row = Some notes_path
   \<and> files (store (handleDelete (Some (lit ''u2'')) None None notes_row shared_backend))
       = files shared_backend
   \<and> result (handleDelete (Some (lit ''u2'')) None None notes_row shared_backend) = Inr ()
   \<and> objects (store (handleDelete (Some (lit ''u2'')) None None notes_row shared_backend))
       = (objects shared_backend)(notes_path := None)
   \<and> store (handleDelete (Some (lit ''u2'')) (Some offline) None notes_row shared_backend)
       = shared_backend"
proof -
  have 2: "notes_row \<in> set (files shared_backend)" by (simp add: files_shared_backend)
  have 3: "Some (lit ''u2'') \<noteq> Some (user_id notes_row)"
    using sample_ids_differ by (simp add: sample_row_facts)
  from C8_delete_by_non_owner [OF shared_backend_keys 2 3 notes_row_written,
         of None None notes_path]
       C8_delete_by_non_owner [OF shared_backend_keys 2 3 notes_row_written,
         of "Some offline" None notes_path]
       shared_backend_keys 2 3 notes_row_written
  show ?thesis by (simp add: sample_row_facts)
qed

text \<open>
  The claim as stated expects the failure \<open>AuthorizationError\<close> and an unchanged state.
  Bob's request to delete alice's Entry for \<open>notes.txt\<close> ends as a success; the record
  stays, and the blob, stored before, is gone.
\<close>

theorem C8_blob_deleted_counterexample:
  "user_id notes_row = lit ''u1''
   \<and> calls (handleDelete (Some (lit ''u2'')) None None notes_row shared_backend)
       = [Remove notes_path, DeleteRow (lit ''e1'')]
   \<and> result (handleDelete (Some (lit ''u2'')) None None notes_row shared_backend) = Inr ()
   \<and> files (store (handleDelete (Some (lit ''u2'')) None None notes_row shared_backend))
       = [notes_row, never_expires, bobs_note]
   \<and> objects shared_backend notes_path = Some notes_txt
   \<and> objects (store (handleDelete (Some (lit ''u2'')) None None notes_row shared_backend))
        notes_path = None"
proof -
  have t: "table_delete None (Some (lit ''u2'')) (lit ''e1'') (files shared_backend)
      = (None, [notes_row, never_expires, bobs_note])"
    using sample_ids_differ
    by (simp add: table_delete_def files_shared_backend sample_row_facts)
  show ?thesis
    unfolding handleDelete_with_path [OF sample_row_facts(1) sample_row_facts(2)]
    by (simp add: sample_row_facts t objects_shared_backend)
qed

section \<open>Issuing a link\<close>

lemma notes_path_split:
  "split_on 0x2F notes_path = [lit ''u1'', lit ''k3j9_1700000000000.txt'']"
  by (simp add: notes_path_def lit_def)

lemma lookup_of_pair:
  assumes "split_on 0x2F p = [d, n]"
  shows "p = d @ lit ''/'' @ n" and "p \<noteq> []"
    and "nth_opt (split_on 0x2F p) 0 = Some d" and "nth_opt (split_on 0x2F p) 1 = Some n"
    and "lookup_request p = ListObjects (Some d) (Some n)"
proof -
  from split_on_pair [OF assms] show p: "p = d @ lit ''/'' @ n" by (simp add: lit_def)
  then show "p \<noteq> []" by (simp add: lit_def)
  show 0: "nth_opt (split_on 0x2F p) 0 = Some d" by (simp add: assms nth_opt_def)
  show 1: "nth_opt (split_on 0x2F p) 1 = Some n" by (simp add: assms nth_opt_def)
  from 0 1 show "lookup_request p = ListObjects (Some d) (Some n)"
    by (simp only: lookup_request_def)
qed

lemma lookup_answer:
  assumes "split_on 0x2F p = [d, n]"
  shows "storage_list fault (nth_opt (split_on 0x2F p) 0) (nth_opt (split_on 0x2F p) 1) objs
     = (case fault of
          Some e \<Rightarrow> Inl e
        | None \<Rightarrow> Inr (Some (if objs p \<noteq> None then [n] else [])))"
proof -
  note l = lookup_of_pair [OF assms]
  have "storage_list fault (Some d) (Some n) objs
     = (case fault of
          Some e \<Rightarrow> Inl e
        | None \<Rightarrow> Inr (Some (if objs (d @ lit ''/'' @ n) \<noteq> None then [n] else [])))"
    by (simp add: storage_list_def split: option.splits)
  then show ?thesis by (simp only: l(3) l(4) l(1) [symmetric])
qed

lemma generateShareableLink_with_path:
  "p \<noteq> [] \<Longrightarrow>
   generateShareableLink uid env fs fileId (Some p) be =
     (case storage_list (list_fault env) (nth_opt (split_on 0x2F p) 0)
             (nth_opt (split_on 0x2F p) 1) (objects be) of
        Inl e \<Rightarrow> \<lparr> store = be, calls = [lookup_request p], result = Inl (StorageError e) \<rparr>
      | Inr checkData \<Rightarrow>
          (case checkData of
             None \<Rightarrow> \<lparr> store = be, calls = [lookup_request p], result = Inl NotFoundError \<rparr>
           | Some found \<Rightarrow>
               (if length found = 0 then
                  \<lparr> store = be, calls = [lookup_request p], result = Inl NotFoundError \<rparr>
                else issue_link uid env fileId (local_download_count fs fileId) p be
                       [lookup_request p])))"
  by (simp add: generateShareableLink_def)

lemma generateShareableLink_missing:
  assumes "objects be p = None" and "split_on 0x2F p = [d, n]"
  shows "generateShareableLink uid env fs fileId (Some p) be =
     \<lparr> store = be, calls = [ListObjects (Some d) (Some n)],
       result = (case list_fault env of
                   Some e \<Rightarrow> Inl (StorageError e) | None \<Rightarrow> Inl NotFoundError) \<rparr>"
proof -
  have k: "storage_list (list_fault env) (nth_opt (split_on 0x2F p) 0)
             (nth_opt (split_on 0x2F p) 1) (objects be)
      = (case list_fault env of Some e \<Rightarrow> Inl e | None \<Rightarrow> Inr (Some []))"
    unfolding lookup_answer [OF assms(2)] by (simp add: assms(1) split: option.splits)
  show ?thesis
    unfolding generateShareableLink_with_path [OF lookup_of_pair(2) [OF assms(2)]] k
      lookup_of_pair(5) [OF assms(2)]
    by (simp split: option.splits)
qed

lemma generateShareableLink_stored:
  assumes "objects be p = Some x" and "split_on 0x2F p = [d, n]"
    and "list_fault env = None" "sign_fault env = None" "signed_url env = Some url"
    and "url \<noteq> []" "clipboard_ok env"
  shows "result (generateShareableLink uid env fs fileId (Some p) be) = Inr (Some url)"
proof -
  have k: "storage_list (list_fault env) (nth_opt (split_on 0x2F p) 0)
             (nth_opt (split_on 0x2F p) 1) (objects be) = Inr (Some [n])"
    unfolding lookup_answer [OF assms(2)] by (simp add: assms(1) assms(3))
  show ?thesis
    unfolding generateShareableLink_with_path [OF lookup_of_pair(2) [OF assms(2)]] k
    using assms(1,4,5,6,7)
    by (simp add: issue_link_def storage_sign_def table_update_download_count_def Let_def
          split: prod.splits option.splits)
qed

lemma handleShareLink_missing:
  assumes "objects be p = None" and "path f = Some p" and "p \<noteq> []"
  shows "handleShareLink uid env f be =
     \<lparr> store = be, calls = [CreateSignedUrl p],
       result = (case sign_fault env of
                   Some e \<Rightarrow> Inl (StorageError e)
                 | None \<Rightarrow> Inl (StorageError object_not_found)) \<rparr>"
  using assms by (simp add: handleShareLink_def storage_sign_def split: option.splits)

lemma handleShareLink_no_lookup:
  "ListObjects a b \<notin> set (calls (handleShareLink uid env f be))"
  by (auto simp: handleShareLink_def Let_def split: option.splits sum.splits prod.splits)

text \<open>
  C4 (as amended). Take an Entry whose path, a folder and a file name as a submission
  writes it, names no stored object. Both link issuers end in a failure, so no signed URL
  is returned, and leave the store, so every download count, unchanged. The file list's
  \<open>generateShareableLink\<close> issues the lookup by path as its only request and fails with
  \<open>NotFoundError\<close>, unless the lookup itself fails: then it fails with the lookup's error.
  The dashboard's \<open>handleShareLink\<close> issues no lookup: its only request is the signing,
  which the storage refuses for a missing object, and it fails with that storage error.
\<close>

theorem C4_missing_blob_no_link:
  assumes "objects be p = None" and "split_on 0x2F p = [d, n]"
  shows "calls (generateShareableLink uid env fs fileId (Some p) be)
           = [ListObjects (Some d) (Some n)]
       \<and> store (generateShareableLink uid env fs fileId (Some p) be) = be
       \<and> (list_fault env = None \<longrightarrow>
            result (generateShareableLink uid env fs fileId (Some p) be) = Inl NotFoundError)
       \<and> (list_fault env = Some e \<longrightarrow>
            result (generateShareableLink uid env fs fileId (Some p) be) = Inl (StorageError e))
       \<and> (path f = Some p \<longrightarrow>
            calls (handleShareLink uid env f be) = [CreateSignedUrl p]
            \<and> store (handleShareLink uid env f be) = be
            \<and> (sign_fault env = None \<longrightarrow>
                  result (handleShareLink uid env f be) = Inl (StorageError object_not_found))
            \<and> (sign_fault env = Some e \<longrightarrow>
                  result (handleShareLink uid env f be) = Inl (StorageError e)))"
proof -
  note g = generateShareableLink_missing [OF assms, of uid env fs fileId]
  have G: "calls (generateShareableLink uid env fs fileId (Some p) be)
           = [ListObjects (Some d) (Some n)]
       \<and> store (generateShareableLink uid env fs fileId (Some p) be) = be
       \<and> (list_fault env = None \<longrightarrow>
            result (generateShareableLink uid env fs fileId (Some p) be) = Inl NotFoundError)
       \<and> (list_fault env = Some e \<longrightarrow>
            result (generateShareableLink uid env fs fileId (Some p) be) = Inl (StorageError e))"
    unfolding g by simp
  have S: "path f = Some p \<longrightarrow>
            calls (handleShareLink uid env f be) = [CreateSignedUrl p]
            \<and> store (handleShareLink uid env f be) = be
            \<and> (sign_fault env = None \<longrightarrow>
                  result (handleShareLink uid env f be) = Inl (StorageError object_not_found))
            \<and> (sign_fault env = Some e \<longrightarrow>
                  result (handleShareLink uid env f be) = Inl (StorageError e))"
  proof
    assume a: "path f = Some p"
    note s = handleShareLink_missing [OF assms(1) a lookup_of_pair(2) [OF assms(2)], of uid env]
    show "calls (handleShareLink uid env f be) = [CreateSignedUrl p]
            \<and> store (handleShareLink uid env f be) = be
            \<and> (sign_fault env = None \<longrightarrow>
                  result (handleShareLink uid env f be) = Inl (StorageError object_not_found))
            \<and> (sign_fault env = Some e \<longrightarrow>
                  result (handleShareLink uid env f be) = Inl (StorageError e))"
      unfolding s by simp
  qed
  from G S show ?thesis by blast
qed

lemma objects_orphaned_backend: "objects orphaned_backend notes_path = None"
  by (simp add: orphaned_backend_def)

lemma link_env_facts:
  "list_fault quiet_link_env = None" "sign_fault quiet_link_env = None"
  "list_fault lookup_down = Some offline" "sign_fault lookup_down = None"
  by (simp_all add: quiet_link_env_def lookup_down_def)

theorem C4_missing_blob_no_link_witness:
  "objects orphaned_backend notes_path = None
   \<and> split_on 0x2F notes_path = [lit ''u1'', lit ''k3j9_1700000000000.txt'']
   \<and> path notes_row = Some notes_path
   \<and> calls (generateShareableLink (Some (lit ''u1'')) quiet_link_env [notes_row] (lit ''e1'')
        (Some notes_path) orphaned_backend)
       = [ListObjects (Some (lit ''u1'')) (Some (lit ''k3j9_1700000000000.txt''))]
   \<and> result (generateShareableLink (Some (lit ''u1'')) quiet_link_env [notes_row] (lit ''e1'')
        (Some notes_path) orphaned_backend) = Inl NotFoundError
   \<and> store (generateShareableLink (Some (lit ''u1'')) quiet_link_env [notes_row] (lit ''e1'')
        (Some notes_path) orphaned_backend) = orphaned_backend
   \<and> result (generateShareableLink (Some (lit ''u1'')) lookup_down [notes_row] (lit ''e1'')
        (Some notes_path) orphaned_backend) = Inl (StorageError offline)
   \<and> calls (handleShareLink (Some (lit ''u1'')) quiet_link_env notes_row orphaned_backend)
       = [CreateSignedUrl notes_path]
   \<and> result (handleShareLink (Some (lit ''u1'')) quiet_link_env notes_row orphaned_backend)
       = Inl (StorageError object_not_found)
   \<and> store (handleShareLink (Some (lit ''u1'')) quiet_link_env notes_row orphaned_backend)
       = orphaned_backend"
  using C4_missing_blob_no_link [OF objects_orphaned_backend notes_path_split,
          of "Some (lit ''u1'')" quiet_link_env "[notes_row]" "lit ''e1''" offline notes_row]
        C4_missing_blob_no_link [OF objects_orphaned_backend notes_path_split,
          of "Some (lit ''u1'')" lookup_down "[notes_row]" "lit ''e1''" offline notes_row]
        objects_orphaned_backend notes_path_split
  by (simp add: link_env_facts sample_row_facts)

text \<open>
  The claim as stated promises, for every issuer, a lookup and \<open>NotFoundError\<close> whenever the
  blob is missing. With the blob of \<open>notes.txt\<close> missing, the file list's issuer ends with
  the lookup's error when the lookup fails, and the dashboard's issuer requests the
  signing without any lookup and ends with the storage's error.
\<close>

theorem C4_missing_blob_counterexample:
  "objects orphaned_backend notes_path = None
   \<and> path notes_row = Some notes_path
   \<and> result (generateShareableLink (Some (lit ''u1'')) lookup_down [notes_row] (lit ''e1'')
        (Some notes_path) orphaned_backend) = Inl (StorageError offline)
   \<and> calls (handleShareLink (Some (lit ''u1'')) quiet_link_env notes_row orphaned_backend)
       = [CreateSignedUrl notes_path]
   \<and> result (handleShareLink (Some (lit ''u1'')) quiet_link_env notes_row orphaned_backend)
       = Inl (StorageError object_not_found)"
proof -
  note g = generateShareableLink_missing [OF objects_orphaned_backend notes_path_split,
      of "Some (lit ''u1'')" lookup_down "[notes_row]" "lit ''e1''"]
  note s = handleShareLink_missing [OF objects_orphaned_backend sample_row_facts(1)
      sample_row_facts(2), of "Some (lit ''u1'')" quiet_link_env]
  show ?thesis
    unfolding g s by (simp add: link_env_facts sample_row_facts objects_orphaned_backend)
qed

section \<open>Active transfers\<close>

lemma gte_expiry_date_iff:
  "gte_expiry_date now r \<longleftrightarrow> (\<exists>d. expiry_date r = Some d \<and> now \<le> d)"
  by (simp add: gte_expiry_date_def split: option.splits)

lemma activeTransfers_counts:
  "activeTransfers (fetchDashboardStats uid now rows)
     = length (filter (\<lambda>r. uid = Some (user_id r) \<and> (\<exists>d. expiry_date r = Some d \<and> now \<le> d)) rows)"
  by (simp add: fetchDashboardStats_def visible_def gte_expiry_date_iff)

text \<open>
  C5, evaluated. The dashboard counts as active the rows whose expiry date is at or after
  the current time. A row without an expiry date is not counted: with alice's
  never-expiring message as the only row, the dashboard shows one file and no active
  transfer.
\<close>

theorem C5_never_expiring_not_counted:
  "expiry_date never_expires = None
   \<and> totalFiles (fetchDashboardStats (Some (lit ''u1'')) 1700000000003 [never_expires]) = 1
   \<and> activeTransfers (fetchDashboardStats (Some (lit ''u1'')) 1700000000003 [never_expires]) = 0"
  by (simp add: fetchDashboardStats_def visible_def gte_expiry_date_def never_expires_def)

end
